theory Spec2Isabelle
  imports Main "HOL-Library.Word" "HOL-Library.Sublist" "HOL-Library.List_Lexorder"
begin

unbundle bit_operations_syntax

section \<open>Data model of the vendored SNMP library (marshal.go)\<close>

type_synonym byte = "8 word"
type_synonym uint32 = "32 word"

text \<open>
  Errors are values built by \<^verbatim>\<open>fmt.Errorf(format, args...)\<close>: the format string and
  the arguments, so that two errors are equal when the same call site produced them
  from the same arguments. The newline that ends some format strings is left out.
\<close>

datatype go_error = Errorf string "go_arg list"
  and go_arg = ArgInt int | ArgStr string | ArgErr go_error

text \<open>\<^verbatim>\<open>type PDUType byte\<close> and its constants (marshal.go, lines 127-141).\<close>

type_synonym PDUType = byte

definition Sequence :: PDUType where "Sequence = 0x30"
definition GetRequest :: PDUType where "GetRequest = 0xa0"
definition GetNextRequest :: PDUType where "GetNextRequest = 0xa1"
definition GetResponse :: PDUType where "GetResponse = 0xa2"
definition SetRequest :: PDUType where "SetRequest = 0xa3"
definition Trap :: PDUType where "Trap = 0xa4"
definition GetBulkRequest :: PDUType where "GetBulkRequest = 0xa5"
definition InformRequest :: PDUType where "InformRequest = 0xa6"
definition SNMPv2Trap :: PDUType where "SNMPv2Trap = 0xa7"
definition Report :: PDUType where "Report = 0xa8"

text \<open>\<^verbatim>\<open>type SnmpVersion uint8\<close> (marshal.go, lines 27-34).\<close>

type_synonym SnmpVersion = byte

definition Version1 :: SnmpVersion where "Version1 = 0x0"
definition Version2c :: SnmpVersion where "Version2c = 0x1"
definition Version3 :: SnmpVersion where "Version3 = 0x3"

text \<open>\<^verbatim>\<open>type SnmpV3MsgFlags uint8\<close> (marshal.go, lines 37-45).\<close>

type_synonym SnmpV3MsgFlags = byte

definition NoAuthNoPriv :: SnmpV3MsgFlags where "NoAuthNoPriv = 0x0"
definition AuthNoPriv :: SnmpV3MsgFlags where "AuthNoPriv = 0x1"
definition AuthPriv :: SnmpV3MsgFlags where "AuthPriv = 0x3"
definition Reportable :: SnmpV3MsgFlags where "Reportable = 0x4"

definition UserSecurityModel :: byte where "UserSecurityModel = 3"

text \<open>
  Modelled from the spec: the tag bytes of the typed-value kinds of section 3 and the
  error status \<^verbatim>\<open>NoSuchName\<close>. The constants are declared outside the files at hand;
  the spec requires byte-level interoperability with standard SNMP agents, whose tag
  values these are.
\<close>

type_synonym Asn1BER = byte

definition Integer :: Asn1BER where "Integer = 0x02"
definition OctetString :: Asn1BER where "OctetString = 0x04"
definition Null :: Asn1BER where "Null = 0x05"
definition ObjectIdentifier :: Asn1BER where "ObjectIdentifier = 0x06"
definition IPAddress :: Asn1BER where "IPAddress = 0x40"
definition Counter32 :: Asn1BER where "Counter32 = 0x41"
definition Gauge32 :: Asn1BER where "Gauge32 = 0x42"
definition TimeTicks :: Asn1BER where "TimeTicks = 0x43"
definition Uinteger32 :: Asn1BER where "Uinteger32 = 0x47"
definition NoSuchObject :: Asn1BER where "NoSuchObject = 0x80"
definition NoSuchInstance :: Asn1BER where "NoSuchInstance = 0x81"
definition EndOfMibView :: Asn1BER where "EndOfMibView = 0x82"

type_synonym SNMPError = byte

definition NoSuchName :: SNMPError where "NoSuchName = 2"

text \<open>
  The dynamic types that the \<^verbatim>\<open>interface{}\<close> field \<^verbatim>\<open>SnmpPDU.Value\<close> takes in
  marshal.go (the type switches of \<^verbatim>\<open>marshalVarbind\<close>) and in the plugins
  (\<^verbatim>\<open>Value.(uint)\<close>, \<^verbatim>\<open>Value.(int)\<close>, \<^verbatim>\<open>Value.([]byte)\<close>), and the \<^verbatim>\<open>[]int\<close>
  that \<^verbatim>\<open>unmarshalVBL\<close> expects for an object identifier.
\<close>

datatype go_value =
    VNil
  | VByte byte
  | VInt int
  | VUint nat
  | VUint32 uint32
  | VBytes "byte list"
  | VString string
  | VInts "int list"

record SnmpPDU =
  Name :: string
  Type :: Asn1BER
  Value :: go_value

record UsmSecurityParameters =
  AuthoritativeEngineID :: string
  AuthoritativeEngineBoots :: uint32
  AuthoritativeEngineTime :: uint32
  UserName :: string
  AuthenticationParameters :: string
  PrivacyParameters :: "byte list"
  AuthenticationProtocol :: byte
  PrivacyProtocol :: byte
  AuthenticationPassphrase :: string
  PrivacyPassphrase :: string

record SnmpPacket =
  Version :: SnmpVersion
  MsgFlags :: SnmpV3MsgFlags
  SecurityModel :: byte
  SecurityParameters :: "UsmSecurityParameters option"
  ContextEngineID :: string
  ContextName :: string
  Community :: string
  PDUType :: PDUType
  MsgID :: uint32
  RequestID :: uint32
  Error :: SNMPError
  ErrorIndex :: byte
  NonRepeaters :: byte
  MaxRepetitions :: byte
  Variables :: "SnmpPDU list"

text \<open>The zero value \<^verbatim>\<open>SnmpPacket{}\<close>.\<close>

definition emptyPacket :: SnmpPacket where
  "emptyPacket = \<lparr>Version = 0, MsgFlags = 0, SecurityModel = 0, SecurityParameters = None,
     ContextEngineID = [], ContextName = [], Community = [], PDUType = 0, MsgID = 0,
     RequestID = 0, Error = 0, ErrorIndex = 0, NonRepeaters = 0, MaxRepetitions = 0,
     Variables = []\<rparr>"

section \<open>The walk (walk.go)\<close>

text \<open>
  \<^verbatim>\<open>GetBulk\<close> and \<^verbatim>\<open>GetNext\<close> perform a round trip on the session; the walk only
  calls them. They are parameters here, passing the session state \<open>'x\<close> along, so that
  an agent may answer the same identifier differently each time. The constants
  \<^verbatim>\<open>baseOid\<close> and \<^verbatim>\<open>defaultMaxRepetitions\<close> are parameters as well.
\<close>

record 'x walk_env =
  GetBulk :: "string list \<Rightarrow> byte \<Rightarrow> byte \<Rightarrow> 'x \<Rightarrow> (go_error + SnmpPacket) \<times> 'x"
  GetNext :: "string list \<Rightarrow> 'x \<Rightarrow> (go_error + SnmpPacket) \<times> 'x"
  baseOid :: string
  defaultMaxRepetitions :: int
  cfgMaxRepetitions :: int
  cfgNonRepeaters :: int

text \<open>The closure \<^verbatim>\<open>getFn\<close> (walk.go, lines 28-37).\<close>

definition getFn ::
  "'x walk_env \<Rightarrow> PDUType \<Rightarrow> int \<Rightarrow> string \<Rightarrow> 'x \<Rightarrow> (go_error + SnmpPacket) \<times> 'x" where
  "getFn env getRequestType maxReps oid x =
     (if getRequestType = GetBulkRequest then
        GetBulk env [oid] (word_of_int (cfgNonRepeaters env)) (word_of_int maxReps) x
      else if getRequestType = GetNextRequest then
        GetNext env [oid] x
      else (Inl (Errorf ''Unsupported request type: %d'' [ArgInt (uint getRequestType)]), x))"

text \<open>
  The loop over \<^verbatim>\<open>response.Variables\<close> (walk.go, lines 56-72). The callback
  \<^verbatim>\<open>walkFn\<close> is a closure: it takes the binding and its own state \<open>'w\<close> and returns
  an error or nil with the state it leaves behind.
\<close>

datatype loop_exit = Completed | BreakRequestLoop | ReturnErr go_error

fun forVariables ::
  "string \<Rightarrow> string \<Rightarrow> (SnmpPDU \<Rightarrow> 'w \<Rightarrow> go_error option \<times> 'w) \<Rightarrow> SnmpPDU list \<Rightarrow> 'w
     \<Rightarrow> loop_exit \<times> 'w" where
  "forVariables rootOid oid walkFn [] w = (Completed, w)"
| "forVariables rootOid oid walkFn (v # vs) w =
     (if Type v = EndOfMibView \<or> Type v = NoSuchObject \<or> Type v = NoSuchInstance then
        (BreakRequestLoop, w)
      else if \<not> prefix rootOid (Name v) then (BreakRequestLoop, w)
      else if Name v = oid then (ReturnErr (Errorf ''OID not increasing: %s'' [ArgStr (Name v)]), w)
      else (case walkFn v w of
              (Some err, w') \<Rightarrow> (ReturnErr err, w')
            | (None, w') \<Rightarrow> forVariables rootOid oid walkFn vs w'))"

text \<open>
  \<^verbatim>\<open>RequestLoop\<close> (walk.go, lines 39-77). Nothing bounds the number of requests, so
  the loop is a partial function: \<open>None\<close> is a walk that never returns. The result
  is the returned error, the callback's state, the session state and the request count.
\<close>

partial_function (option) RequestLoop ::
  "'x walk_env \<Rightarrow> PDUType \<Rightarrow> int \<Rightarrow> string \<Rightarrow> (SnmpPDU \<Rightarrow> 'w \<Rightarrow> go_error option \<times> 'w)
     \<Rightarrow> string \<Rightarrow> nat \<Rightarrow> 'w \<Rightarrow> 'x \<Rightarrow> (go_error option \<times> 'w \<times> 'x \<times> nat) option" where
  "RequestLoop env getRequestType maxReps rootOid walkFn oid requests w x =
     (case getFn env getRequestType maxReps oid x of
        (Inl err, x') \<Rightarrow> Some (Some err, w, x', Suc requests)
      | (Inr response, x') \<Rightarrow>
          if length (Variables response) = 0 then Some (None, w, x', Suc requests)
          else if Error response = NoSuchName then Some (None, w, x', Suc requests)
          else (case forVariables rootOid oid walkFn (Variables response) w of
                  (BreakRequestLoop, w') \<Rightarrow> Some (None, w', x', Suc requests)
                | (ReturnErr err, w') \<Rightarrow> Some (Some err, w', x', Suc requests)
                | (Completed, w') \<Rightarrow>
                    RequestLoop env getRequestType maxReps rootOid walkFn
                      (Name (last (Variables response))) (Suc requests) w' x'))"

declare RequestLoop.simps [code]

text \<open>The prologue of \<^verbatim>\<open>walk\<close> (walk.go, lines 13-26) and the function itself.\<close>

definition walkRoot :: "'x walk_env \<Rightarrow> string \<Rightarrow> string" where
  "walkRoot env rootOid =
     (let rootOid1 = (if rootOid = [] \<or> rootOid = ''.'' then baseOid env else rootOid)
      in if \<not> prefix ''.'' rootOid1 then ''.'' @ rootOid1 else rootOid1)"

definition walkMaxReps :: "'x walk_env \<Rightarrow> int" where
  "walkMaxReps env =
     (if cfgMaxRepetitions env \<le> 0 then defaultMaxRepetitions env else cfgMaxRepetitions env)"

definition walk ::
  "'x walk_env \<Rightarrow> PDUType \<Rightarrow> string \<Rightarrow> (SnmpPDU \<Rightarrow> 'w \<Rightarrow> go_error option \<times> 'w) \<Rightarrow> 'w \<Rightarrow> 'x
     \<Rightarrow> (go_error option \<times> 'w \<times> 'x \<times> nat) option" where
  "walk env getRequestType rootOid walkFn w x =
     RequestLoop env getRequestType (walkMaxReps env) (walkRoot env rootOid) walkFn
       (walkRoot env rootOid) 0 w x"

text \<open>\<^verbatim>\<open>walkAll\<close> (walk.go, lines 80-86): the callback appends to \<^verbatim>\<open>results\<close>.\<close>

definition collect :: "SnmpPDU \<Rightarrow> SnmpPDU list \<Rightarrow> go_error option \<times> SnmpPDU list" where
  "collect dataUnit results = (None, results @ [dataUnit])"

definition walkAll ::
  "'x walk_env \<Rightarrow> PDUType \<Rightarrow> string \<Rightarrow> 'x \<Rightarrow> (SnmpPDU list \<times> go_error option \<times> 'x) option" where
  "walkAll env getRequestType rootOid x =
     (case walk env getRequestType rootOid collect [] x of
        None \<Rightarrow> None
      | Some (err, results, x', n) \<Rightarrow> Some (results, err, x'))"

subsection \<open>Notions used to state the walk's properties\<close>

text \<open>
  A binding passes the three checks of the loop body when it is no end marker, lies
  under the root and differs from the identifier of the running request; such a binding
  is handed to the callback.
\<close>

definition passes :: "string \<Rightarrow> string \<Rightarrow> SnmpPDU \<Rightarrow> bool" where
  "passes rootOid oid v \<longleftrightarrow>
     Type v \<noteq> EndOfMibView \<and> Type v \<noteq> NoSuchObject \<and> Type v \<noteq> NoSuchInstance \<and>
     prefix rootOid (Name v) \<and> Name v \<noteq> oid"

text \<open>Yielding a sequence of bindings: the callback is run on each in turn.\<close>

fun yieldAll ::
  "(SnmpPDU \<Rightarrow> 'w \<Rightarrow> go_error option \<times> 'w) \<Rightarrow> SnmpPDU list \<Rightarrow> 'w \<Rightarrow> go_error option \<times> 'w" where
  "yieldAll walkFn [] w = (None, w)"
| "yieldAll walkFn (v # vs) w =
     (case walkFn v w of (Some err, w') \<Rightarrow> (Some err, w') | (None, w') \<Rightarrow> yieldAll walkFn vs w')"

text \<open>
  The arcs of a dotted-decimal identifier, to compare identifiers lexicographically
  (the order of \<^verbatim>\<open>HOL-Library.List_Lexorder\<close> on lists of numbers).
\<close>

fun splitOn :: "char \<Rightarrow> string \<Rightarrow> string list" where
  "splitOn c [] = [[]]"
| "splitOn c (x # xs) =
     (if x = c then [] # splitOn c xs
      else (case splitOn c xs of [] \<Rightarrow> [[x]] | p # ps \<Rightarrow> (x # p) # ps))"

definition atoiDigits :: "string \<Rightarrow> nat" where
  "atoiDigits s = foldl (\<lambda>a d. 10 * a + (of_char d - 48)) 0 s"

definition oidArcs :: "string \<Rightarrow> nat list" where
  "oidArcs s = map atoiDigits (filter (\<lambda>p. p \<noteq> []) (splitOn CHR ''.'' s))"

text \<open>
  A session for concrete runs: the agent answers the k-th request with the k-th entry
  of a script and times out afterwards; the session state is the list of identifiers
  requested so far.
\<close>

definition scripted ::
  "SnmpPDU list list \<Rightarrow> string list \<Rightarrow> string list \<Rightarrow> (go_error + SnmpPacket) \<times> string list" where
  "scripted rs oids asked =
     (if length asked < length rs
      then Inr (emptyPacket\<lparr>PDUType := GetResponse, Variables := rs ! length asked\<rparr>)
      else Inl (Errorf ''Request timeout (after %d retries)'' [ArgInt 0]), asked @ oids)"

definition scriptedEnv :: "SnmpPDU list list \<Rightarrow> string list walk_env" where
  "scriptedEnv rs = \<lparr>GetBulk = (\<lambda>oids nonRepeaters maxReps. scripted rs oids),
     GetNext = scripted rs, baseOid = ''.1.3.6.1.2.1'', defaultMaxRepetitions = 50,
     cfgMaxRepetitions = 0, cfgNonRepeaters = 0\<rparr>"

definition binding :: "string \<Rightarrow> Asn1BER \<Rightarrow> int \<Rightarrow> SnmpPDU" where
  "binding n t i = \<lparr>Name = n, Type = t, Value = VInt i\<rparr>"

section \<open>Decoding (marshal.go, lines 788-1246)\<close>

text \<open>
  A Go call returns, returns an error, panics (an index or a slice bound out of range,
  a division by zero), or never returns.
\<close>

datatype 'a res = Ok 'a | Err go_error | Panic string | Diverge

definition bnd :: "'a res \<Rightarrow> ('a \<Rightarrow> 'b res) \<Rightarrow> 'b res" where
  "bnd m f = (case m of Ok x \<Rightarrow> f x | Err e \<Rightarrow> Err e | Panic p \<Rightarrow> Panic p | Diverge \<Rightarrow> Diverge)"

text \<open>\<^verbatim>\<open>xs[i]\<close> and \<^verbatim>\<open>xs[i:]\<close> on a slice whose capacity is its length.\<close>

definition indexAt :: "'a list \<Rightarrow> int \<Rightarrow> 'a res" where
  "indexAt xs i =
     (if 0 \<le> i \<and> i < int (length xs) then Ok (xs ! nat i)
      else Panic ''runtime error: index out of range'')"

definition sliceFrom :: "'a list \<Rightarrow> int \<Rightarrow> 'a list res" where
  "sliceFrom xs i =
     (if 0 \<le> i \<and> i \<le> int (length xs) then Ok (drop (nat i) xs)
      else Panic ''runtime error: slice bounds out of range'')"

text \<open>
  The decoding functions that marshal.go calls and that are declared elsewhere are
  parameters: \<^verbatim>\<open>parseLength\<close> (the total length of a field, its header included, and
  the length of the header), \<^verbatim>\<open>parseRawField\<close> (the value of a field and the number
  of bytes it takes), \<^verbatim>\<open>decodeValue\<close> (the type and value of a binding's value) and
  \<^verbatim>\<open>oidToString\<close>. So is the branch of \<^verbatim>\<open>unmarshal\<close> for version 3 (lines 844-1092:
  header, user security model, decryption, scoped PDU), which gets the buffer, the cursor,
  the original message flags and engine identifier and the response, and gives back the
  buffer, the cursor and the response.
\<close>

record helpers =
  parseLength :: "byte list \<Rightarrow> int \<times> int"
  parseRawField :: "byte list \<Rightarrow> string \<Rightarrow> go_error + (go_value \<times> int)"
  decodeValue :: "byte list \<Rightarrow> string \<Rightarrow> go_error + (Asn1BER \<times> go_value)"
  oidToString :: "int list \<Rightarrow> string"
  unmarshalV3 :: "byte list \<Rightarrow> int \<Rightarrow> SnmpV3MsgFlags \<Rightarrow> string \<Rightarrow> SnmpPacket
                    \<Rightarrow> (byte list \<times> int \<times> SnmpPacket) res"

text \<open>One round of the loop over the bindings (lines 1212-1243): the binding and the new cursor.\<close>

definition vblStep :: "helpers \<Rightarrow> byte list \<Rightarrow> int \<Rightarrow> (SnmpPDU \<times> int) res" where
  "vblStep h packet cursor =
     bnd (indexAt packet cursor) (\<lambda>b.
       if b \<noteq> 0x30 then
         Err (Errorf ''Expected a sequence when unmarshalling a VB, got %x'' [ArgInt (uint b)])
       else
         bnd (sliceFrom packet cursor) (\<lambda>s1.
           let cursorInc = snd (parseLength h s1); cursor1 = cursor + cursorInc in
           bnd (sliceFrom packet cursor1) (\<lambda>s2.
             case parseRawField h s2 ''OID'' of
               Inl err \<Rightarrow> Err (Errorf ''Error parsing OID Value: %s'' [ArgErr err])
             | Inr (rawOid, oidLength) \<Rightarrow>
                 let cursor2 = cursor1 + oidLength in
                 (case rawOid of
                    VInts oid \<Rightarrow>
                      bnd (sliceFrom packet cursor2) (\<lambda>s3.
                        case decodeValue h s3 ''value'' of
                          Inl err \<Rightarrow> Err (Errorf ''Error decoding value: %v'' [ArgErr err])
                        | Inr (t, v) \<Rightarrow>
                            let valueLength = fst (parseLength h s3) in
                            Ok (\<lparr>Name = oidToString h oid, Type = t, Value = v\<rparr>,
                                cursor2 + valueLength))
                  | _ \<Rightarrow> Err (Errorf ''unable to type assert rawOid |%v| to []int'' [])))))"

text \<open>
  The loop \<^verbatim>\<open>for cursor < vblLength\<close> (line 1211). Nothing in the loop itself makes the
  cursor advance, so it is a partial function; \<open>None\<close> is a loop that never ends.
\<close>

partial_function (option) vblLoop ::
  "helpers \<Rightarrow> byte list \<Rightarrow> int \<Rightarrow> int \<Rightarrow> SnmpPacket \<Rightarrow> SnmpPacket res option" where
  "vblLoop h packet vblLength cursor response =
     (if cursor < vblLength then
        (case vblStep h packet cursor of
           Ok (pdu, cursor') \<Rightarrow>
             vblLoop h packet vblLength cursor'
               (response\<lparr>Variables := Variables response @ [pdu]\<rparr>)
         | Err e \<Rightarrow> Some (Err e)
         | Panic p \<Rightarrow> Some (Panic p)
         | Diverge \<Rightarrow> Some Diverge)
      else Some (Ok response))"

declare vblLoop.simps [code]

text \<open>\<^verbatim>\<open>unmarshalVBL\<close> (lines 1186-1246).\<close>

definition unmarshalVBL :: "helpers \<Rightarrow> byte list \<Rightarrow> SnmpPacket \<Rightarrow> int \<Rightarrow> SnmpPacket res" where
  "unmarshalVBL h packet response length' =
     bnd (indexAt packet 0) (\<lambda>b0.
       if b0 \<noteq> 0x30 then
         Err (Errorf ''Expected a sequence when unmarshalling a VBL, got %x'' [ArgInt (uint b0)])
       else
         let (vblLength, cursor) = parseLength h packet in
         if int (length packet) \<noteq> vblLength then
           Err (Errorf ''Error verifying: packet length %d vbl length %d''
                  [ArgInt (int (length packet)), ArgInt vblLength])
         else
           bnd (if vblLength = 2 then bnd (indexAt packet 1) (\<lambda>b1. Ok (b1 = 0x00)) else Ok False)
             (\<lambda>emptyResponse.
                if emptyResponse then Ok response
                else (case vblLoop h packet vblLength cursor response of
                        None \<Rightarrow> Diverge
                      | Some r \<Rightarrow> r)))"

text \<open>\<^verbatim>\<open>unmarshalResponse\<close> (lines 1109-1183).\<close>

definition unmarshalResponse ::
  "helpers \<Rightarrow> byte list \<Rightarrow> SnmpPacket \<Rightarrow> int \<Rightarrow> PDUType \<Rightarrow> SnmpPacket res" where
  "unmarshalResponse h packet response0 length' requestType =
     (let response = response0\<lparr>PDUType := requestType\<rparr>;
          (getResponseLength, cursor) = parseLength h packet in
      if int (length packet) \<noteq> getResponseLength then
        Err (Errorf ''Error verifying Response sanity: Got %d Expected: %d''
               [ArgInt (int (length packet)), ArgInt getResponseLength])
      else
        bnd (sliceFrom packet cursor) (\<lambda>s1.
          case parseRawField h s1 ''request id'' of
            Inl err \<Rightarrow> Err (Errorf ''Error parsing SNMP packet request ID: %s'' [ArgErr err])
          | Inr (rawRequestID, count) \<Rightarrow>
              let cursor1 = cursor + count;
                  response1 = (case rawRequestID of
                                 VInt requestid \<Rightarrow> response\<lparr>RequestID := word_of_int requestid\<rparr>
                               | _ \<Rightarrow> response) in
              if PDUType response1 = GetBulkRequest then
                bnd (sliceFrom packet cursor1) (\<lambda>s2.
                  case parseRawField h s2 ''non repeaters'' of
                    Inl err \<Rightarrow>
                      Err (Errorf ''Error parsing SNMP packet non repeaters: %s'' [ArgErr err])
                  | Inr (rawNonRepeaters, count) \<Rightarrow>
                      let cursor2 = cursor1 + count;
                          response2 = (case rawNonRepeaters of
                                         VInt nonRepeaters \<Rightarrow>
                                           response1\<lparr>NonRepeaters := word_of_int nonRepeaters\<rparr>
                                       | _ \<Rightarrow> response1) in
                      bnd (sliceFrom packet cursor2) (\<lambda>s3.
                        case parseRawField h s3 ''max repetitions'' of
                          Inl err \<Rightarrow>
                            Err (Errorf ''Error parsing SNMP packet max repetitions: %s''
                                   [ArgErr err])
                        | Inr (rawMaxRepetitions, count) \<Rightarrow>
                            let cursor3 = cursor2 + count;
                                response3 = (case rawMaxRepetitions of
                                               VInt maxRepetitions \<Rightarrow>
                                                 response2\<lparr>MaxRepetitions :=
                                                   word_of_int maxRepetitions\<rparr>
                                             | _ \<Rightarrow> response2) in
                            bnd (sliceFrom packet cursor3) (\<lambda>s4.
                              unmarshalVBL h s4 response3 length')))
              else
                bnd (sliceFrom packet cursor1) (\<lambda>s2.
                  case parseRawField h s2 ''error-status'' of
                    Inl err \<Rightarrow> Err (Errorf ''Error parsing SNMP packet error: %s'' [ArgErr err])
                  | Inr (rawError, count) \<Rightarrow>
                      let cursor2 = cursor1 + count;
                          response2 = (case rawError of
                                         VInt errorStatus \<Rightarrow>
                                           response1\<lparr>Error := word_of_int errorStatus\<rparr>
                                       | _ \<Rightarrow> response1) in
                      bnd (sliceFrom packet cursor2) (\<lambda>s3.
                        case parseRawField h s3 ''error index'' of
                          Inl err \<Rightarrow>
                            Err (Errorf ''Error parsing SNMP packet error index: %s''
                                   [ArgErr err])
                        | Inr (rawErrorIndex, count) \<Rightarrow>
                            let cursor3 = cursor2 + count;
                                response3 = (case rawErrorIndex of
                                               VInt errorindex \<Rightarrow>
                                                 response2\<lparr>ErrorIndex := word_of_int errorindex\<rparr>
                                             | _ \<Rightarrow> response2) in
                            bnd (sliceFrom packet cursor3) (\<lambda>s4.
                              unmarshalVBL h s4 response3 length')))))"

text \<open>
  \<^verbatim>\<open>unmarshal\<close> (lines 788-1107). The response is a pointer that may be nil; the
  function fills the packet it points to. On an error the caller drops that packet, so
  the model returns it on success only.
\<close>

definition engineIDOf :: "SnmpPacket \<Rightarrow> string" where
  "engineIDOf response =
     (case SecurityParameters response of None \<Rightarrow> [] | Some sp \<Rightarrow> AuthoritativeEngineID sp)"

definition unmarshal :: "helpers \<Rightarrow> byte list \<Rightarrow> SnmpPacket option \<Rightarrow> SnmpPacket res" where
  "unmarshal h packet responsePtr =
     (case responsePtr of
        None \<Rightarrow> Err (Errorf ''Cannot unmarshal response into nil packet reference'' [])
      | Some response0 \<Rightarrow>
          let OrigMsgFlags = MsgFlags response0;
              OrigAuthEngineID = engineIDOf response0;
              response = response0\<lparr>Variables := []\<rparr> in
          bnd (indexAt packet 0) (\<lambda>b0.
            if b0 \<noteq> Sequence then Err (Errorf ''Invalid packet header'' [])
            else
              let (length', cursor) = parseLength h packet in
              if int (length packet) \<noteq> length' then
                Err (Errorf ''Error verifying packet sanity: Got %d Expected: %d''
                       [ArgInt (int (length packet)), ArgInt length'])
              else
                bnd (sliceFrom packet cursor) (\<lambda>s1.
                  case parseRawField h s1 ''version'' of
                    Inl err \<Rightarrow>
                      Err (Errorf ''Error parsing SNMP packet version: %s'' [ArgErr err])
                  | Inr (rawVersion, count) \<Rightarrow>
                      let cursor1 = cursor + count;
                          response1 = (case rawVersion of
                                         VInt version \<Rightarrow> response\<lparr>Version := word_of_int version\<rparr>
                                       | _ \<Rightarrow> response) in
                      bnd (if Version response1 \<noteq> Version3 then
                             bnd (sliceFrom packet cursor1) (\<lambda>s2.
                               case parseRawField h s2 ''community'' of
                                 Inl err \<Rightarrow>
                                   Err (Errorf ''Error parsing community string: %s'' [ArgErr err])
                               | Inr (rawCommunity, count) \<Rightarrow>
                                   Ok (packet, cursor1 + count,
                                       (case rawCommunity of
                                          VString community \<Rightarrow>
                                            response1\<lparr>Community := community\<rparr>
                                        | _ \<Rightarrow> response1)))
                           else unmarshalV3 h packet cursor1 OrigMsgFlags OrigAuthEngineID response1)
                        (\<lambda>(packet2, cursor2, response2).
                           bnd (indexAt packet2 cursor2) (\<lambda>requestType.
                             if requestType = GetResponse \<or> requestType = GetNextRequest
                                \<or> requestType = GetBulkRequest \<or> requestType = Report
                                \<or> requestType = SNMPv2Trap then
                               bnd (sliceFrom packet2 cursor2) (\<lambda>s3.
                                 case unmarshalResponse h s3 response2 length' requestType of
                                   Err err \<Rightarrow>
                                     Err (Errorf ''Error in unmarshalResponse: %s'' [ArgErr err])
                                 | r \<Rightarrow> r)
                             else Err (Errorf ''Unknown PDUType %#x''
                                         [ArgInt (uint requestType)]))))))"

section \<open>Encoding (marshal.go, lines 567-784)\<close>

text \<open>
  The encoding functions declared elsewhere are parameters: \<^verbatim>\<open>marshalLength\<close>,
  \<^verbatim>\<open>marshalOID\<close>, \<^verbatim>\<open>marshalInt16\<close>, \<^verbatim>\<open>marshalUint32\<close>, the pair
  \<^verbatim>\<open>net.ParseIP\<close> and \<^verbatim>\<open>ipv4toBytes\<close>, the method \<^verbatim>\<open>Check\<close> (which may not
  return), \<^verbatim>\<open>authenticate\<close>, and the branch of \<^verbatim>\<open>marshalMsg\<close> for version 3 (lines
  327-355), which gives the bytes it appends and the offset of the authentication
  parameters among them.
\<close>

record encoders = helpers +
  marshalLength :: "int \<Rightarrow> go_error + byte list"
  marshalOID :: "string \<Rightarrow> go_error + byte list"
  marshalInt16 :: "int \<Rightarrow> go_error + byte list"
  marshalUint32 :: "uint32 \<Rightarrow> go_error + byte list"
  ipv4OfString :: "string \<Rightarrow> byte list"
  Check :: "go_error option \<Rightarrow> unit res"
  authenticate :: "SnmpPacket \<Rightarrow> byte list \<Rightarrow> uint32 \<Rightarrow> go_error + byte list"
  marshalV3 :: "SnmpPacket \<Rightarrow> SnmpPDU list \<Rightarrow> uint32 \<Rightarrow> uint32 \<Rightarrow> (byte list \<times> uint32) res"

definition bytesOf :: "string \<Rightarrow> byte list" where
  "bytesOf s = map of_char s"

definition stringOf :: "byte list \<Rightarrow> string" where
  "stringOf bs = map (\<lambda>b. char_of (unat b)) bs"

definition lenByte :: "nat \<Rightarrow> byte" where
  "lenByte n = of_nat n"

text \<open>
  The value part of a binding, common to the branches of \<^verbatim>\<open>marshalVarbind\<close>: the
  sequence header with its one-byte length, the identifier, then tag, one-byte length and
  content of the value.
\<close>

definition varbindBytes :: "byte list \<Rightarrow> byte \<Rightarrow> byte list \<Rightarrow> byte list" where
  "varbindBytes oid tag content =
     [Sequence, lenByte (length oid + length content + 4)]
     @ ([ObjectIdentifier, lenByte (length oid)] @ oid @ [tag, lenByte (length content)] @ content)"

text \<open>
  A helper that returns \<^verbatim>\<open>([]byte, error)\<close> followed by \<^verbatim>\<open>pdu.Check(err)\<close>: when
  \<^verbatim>\<open>Check\<close> returns on an error, the bytes are nil.
\<close>

definition checked :: "encoders \<Rightarrow> (go_error + byte list) \<Rightarrow> byte list res" where
  "checked h r =
     (case r of
        Inl err \<Rightarrow> bnd (Check h (Some err)) (\<lambda>u. Ok [])
      | Inr bs \<Rightarrow> bnd (Check h None) (\<lambda>u. Ok bs))"

text \<open>\<^verbatim>\<open>marshalVarbind\<close> (lines 639-784).\<close>

definition marshalVarbind :: "encoders \<Rightarrow> SnmpPDU \<Rightarrow> byte list res" where
  "marshalVarbind h pdu =
     (case marshalOID h (Name pdu) of
        Inl err \<Rightarrow> Err err
      | Inr oid \<Rightarrow>
          if Type pdu = Null then
            Ok ([Sequence, lenByte (length oid + 4)]
                @ [ObjectIdentifier, lenByte (length oid)] @ oid @ [Null, 0x00])
          else if Type pdu = Integer then
            (case Value pdu of
               VByte b \<Rightarrow> Panic ''interface conversion: interface {} is uint8, not int''
             | VInt value \<Rightarrow>
                 bnd (checked h (marshalInt16 h value)) (\<lambda>intBytes.
                   Ok (varbindBytes oid Integer intBytes))
             | _ \<Rightarrow> Err (Errorf ''Unable to marshal PDU Integer; not byte or int.'' []))
          else if Type pdu = Counter32 \<or> Type pdu = Gauge32 \<or> Type pdu = TimeTicks
                  \<or> Type pdu = Uinteger32 then
            (case Value pdu of
               VUint32 value \<Rightarrow>
                 bnd (checked h (marshalUint32 h value)) (\<lambda>intBytes.
                   Ok (varbindBytes oid (Type pdu) intBytes))
             | _ \<Rightarrow> Err (Errorf ''Unable to marshal pdu.Type %v; unknown pdu.Value %v''
                          [ArgInt (uint (Type pdu))]))
          else if Type pdu = OctetString then
            (case Value pdu of
               VBytes value \<Rightarrow> Ok (varbindBytes oid OctetString value)
             | VString value \<Rightarrow> Ok (varbindBytes oid OctetString (bytesOf value))
             | _ \<Rightarrow> Err (Errorf ''Unable to marshal PDU OctetString; not []byte or String.'' []))
          else if Type pdu = ObjectIdentifier then
            (case Value pdu of
               VString value \<Rightarrow>
                 bnd (checked h (marshalOID h value)) (\<lambda>oidBytes.
                   Ok (varbindBytes oid (Type pdu) oidBytes))
             | _ \<Rightarrow> Panic ''interface conversion: interface {} is not string'')
          else if Type pdu = IPAddress then
            (case Value pdu of
               VBytes value \<Rightarrow> Ok (varbindBytes oid IPAddress value)
             | VString value \<Rightarrow> Ok (varbindBytes oid IPAddress (ipv4OfString h value))
             | _ \<Rightarrow> Err (Errorf ''Unable to marshal PDU IPAddress; not []byte or String.'' []))
          else Err (Errorf ''Unable to marshal PDU: unknown BER type %q''
                      [ArgInt (uint (Type pdu))]))"

text \<open>\<^verbatim>\<open>marshalVBL\<close> (lines 614-636): the loop over the bindings, then the header.\<close>

fun marshalVarbinds :: "encoders \<Rightarrow> SnmpPDU list \<Rightarrow> byte list res" where
  "marshalVarbinds h [] = Ok []"
| "marshalVarbinds h (pdu # pdus) =
     bnd (marshalVarbind h pdu) (\<lambda>vb. bnd (marshalVarbinds h pdus) (\<lambda>vbs. Ok (vb @ vbs)))"

definition marshalVBL :: "encoders \<Rightarrow> SnmpPDU list \<Rightarrow> byte list res" where
  "marshalVBL h pdus =
     bnd (marshalVarbinds h pdus) (\<lambda>vblBytes.
       case marshalLength h (int (length vblBytes)) of
         Inl err \<Rightarrow> Err err
       | Inr vblLengthBytes \<Rightarrow> Ok ([Sequence] @ vblLengthBytes @ vblBytes))"

definition bigEndian32 :: "uint32 \<Rightarrow> byte list" where
  "bigEndian32 w = [ucast (drop_bit 24 w), ucast (drop_bit 16 w), ucast (drop_bit 8 w), ucast w]"

text \<open>\<^verbatim>\<open>marshalPDU\<close> (lines 567-611).\<close>

definition marshalPDU :: "encoders \<Rightarrow> SnmpPacket \<Rightarrow> SnmpPDU list \<Rightarrow> uint32 \<Rightarrow> byte list res" where
  "marshalPDU h packet pdus requestid =
     (let buf1 = [2, 4] @ bigEndian32 requestid;
          buf2 = (if PDUType packet = GetBulkRequest
                  then buf1 @ [2, 1, NonRepeaters packet] @ [2, 1, MaxRepetitions packet]
                  else buf1 @ [2, 1, 0] @ [2, 1, 0]) in
      bnd (marshalVBL h pdus) (\<lambda>vbl.
        let buf = buf2 @ vbl in
        case marshalLength h (int (length buf)) of
          Inl err2 \<Rightarrow> Err err2
        | Inr bufLengthBytes \<Rightarrow> Ok ([PDUType packet] @ bufLengthBytes @ buf)))"

text \<open>\<^verbatim>\<open>marshalMsg\<close> (lines 308-376).\<close>

definition marshalMsg ::
  "encoders \<Rightarrow> SnmpPacket \<Rightarrow> SnmpPDU list \<Rightarrow> PDUType \<Rightarrow> uint32 \<Rightarrow> uint32 \<Rightarrow> byte list res" where
  "marshalMsg h packet pdus pdutype msgid requestid =
     (let buf0 = [2, 1, Version packet] in
      bnd (if Version packet \<noteq> Version3 then
             bnd (marshalPDU h packet pdus requestid) (\<lambda>pdu.
               Ok (buf0 @ [4, lenByte (length (Community packet))] @ bytesOf (Community packet)
                     @ pdu, 0))
           else
             bnd (marshalV3 h packet pdus msgid requestid) (\<lambda>(tail, authParamStart).
               Ok (buf0 @ tail, authParamStart + of_nat (length buf0))))
        (\<lambda>(buf, authParamStart).
           case marshalLength h (int (length buf)) of
             Inl err2 \<Rightarrow> Err err2
           | Inr bufLengthBytes \<Rightarrow>
               let msg = [Sequence] @ bufLengthBytes @ buf;
                   authParamStart2 = authParamStart + of_nat (length ([Sequence] @ bufLengthBytes)) in
               (case authenticate h packet msg authParamStart2 of
                  Inl err \<Rightarrow> Err err
                | Inr authenticatedMessage \<Rightarrow> Ok authenticatedMessage)))"

section \<open>The session: sending one request (marshal.go, lines 159-303 and 1249-1263)\<close>

text \<open>
  The connection and the clock are the environment. A connection holds the clock, the
  deadline last set, the outcome of each \<^verbatim>\<open>Write\<close> to come (nil or an error; when the
  list is used up, writes succeed) and the outcome of each \<^verbatim>\<open>Read\<close> to come: nothing
  arrives and the read returns a timeout once the deadline has passed, by \<open>late\<close> units of
  time; the read fails otherwise; or a datagram is delivered. When the list is used up
  nothing arrives any more. \<open>sent\<close> records the datagrams written, each with the
  time of the write and the deadline in force.
\<close>

datatype rx_event = Lost nat | ReadFail go_error | Datagram "byte list"

record conn =
  now :: int
  deadline :: int
  writes :: "go_error option list"
  reads :: "rx_event list"
  sent :: "(int \<times> int \<times> byte list) list"

text \<open>The fields of \<^verbatim>\<open>GoSNMP\<close> that the send loop uses, the connection apart.\<close>

record GoSNMP =
  sessionVersion :: SnmpVersion
  Timeout :: int
  Retries :: int
  requestID :: uint32

definition rxBufSize :: nat where "rxBufSize = 65535"

definition connWrite :: "byte list \<Rightarrow> conn \<Rightarrow> go_error option \<times> conn" where
  "connWrite buf c =
     (case writes c of
        [] \<Rightarrow> (None, c\<lparr>sent := sent c @ [(now c, deadline c, buf)]\<rparr>)
      | None # ws \<Rightarrow> (None, c\<lparr>writes := ws, sent := sent c @ [(now c, deadline c, buf)]\<rparr>)
      | Some err # ws \<Rightarrow> (Some err, c\<lparr>writes := ws\<rparr>))"

definition ioTimeout :: go_error where
  "ioTimeout = Errorf ''i/o timeout'' []"

definition connRead :: "conn \<Rightarrow> (go_error + byte list) \<times> conn" where
  "connRead c =
     (case reads c of
        [] \<Rightarrow> (Inl ioTimeout, c\<lparr>now := max (now c) (deadline c)\<rparr>)
      | Lost late # rs \<Rightarrow>
          (Inl ioTimeout, c\<lparr>now := max (now c) (deadline c) + int late, reads := rs\<rparr>)
      | ReadFail err # rs \<Rightarrow> (Inl err, c\<lparr>reads := rs\<rparr>)
      | Datagram d # rs \<Rightarrow> (Inr d, c\<lparr>reads := rs\<rparr>))"

text \<open>\<^verbatim>\<open>receive\<close> (lines 1249-1263); a datagram longer than the buffer is cut to it.\<close>

definition receive :: "conn \<Rightarrow> (go_error + byte list) \<times> conn" where
  "receive c =
     (case connRead c of
        (Inl err, c') \<Rightarrow> (Inl (Errorf ''Error reading from UDP: %s'' [ArgErr err]), c')
      | (Inr d, c') \<Rightarrow>
          let n = min (length d) rxBufSize in
          if n = rxBufSize then (Inl (Errorf ''response buffer too small'' []), c')
          else (Inr (take n d), c'))"

text \<open>The check of the request identifier (lines 240-248).\<close>

definition validID :: "uint32 list \<Rightarrow> SnmpPacket \<Rightarrow> bool" where
  "validID allReqIDs result =
     (let v = foldl (\<lambda>v id. if id = RequestID result then True else v) False allReqIDs
      in if RequestID result = 0 then True else v)"

lemma receive_consumes:
  "receive c = (Inr resp, c') \<Longrightarrow> length (reads c') < length (reads c)"
  by (auto simp: receive_def connRead_def Let_def split: list.splits rx_event.splits if_splits)

text \<open>
  The packet handed to \<^verbatim>\<open>unmarshal\<close> (lines 224-229): fresh, with the message flags
  and a copy of the security parameters of the request.
\<close>

definition freshResult :: "SnmpPacket \<Rightarrow> SnmpPacket" where
  "freshResult packetOut =
     emptyPacket\<lparr>MsgFlags := MsgFlags packetOut,
                   SecurityParameters := SecurityParameters packetOut\<rparr>"

text \<open>
  The receive loop (lines 214-255). It ends with the accepted packet, or with the error
  of \<^verbatim>\<open>receive\<close>; the error it sets before a \<^verbatim>\<open>continue\<close> is overwritten by the next
  \<^verbatim>\<open>receive\<close> and is not kept here.
\<close>

function receiveLoop ::
  "helpers \<Rightarrow> SnmpPacket \<Rightarrow> uint32 list \<Rightarrow> conn \<Rightarrow> SnmpPacket res \<times> conn" where
  "receiveLoop h packetOut allReqIDs c =
     (case receive c of
        (Inl err, c') \<Rightarrow> (Err err, c')
      | (Inr resp, c') \<Rightarrow>
          (case unmarshal h resp (Some (freshResult packetOut)) of
             Err err \<Rightarrow> receiveLoop h packetOut allReqIDs c'
           | Panic p \<Rightarrow> (Panic p, c')
           | Diverge \<Rightarrow> (Diverge, c')
           | Ok result \<Rightarrow>
               if length (Variables result) < 1 then receiveLoop h packetOut allReqIDs c'
               else if \<not> validID allReqIDs result then receiveLoop h packetOut allReqIDs c'
               else (Ok result, c')))"
  by pat_completeness auto
termination
  by (relation "measure (\<lambda>(h, packetOut, allReqIDs, c). length (reads c))")
     (auto dest: receive_consumes [OF sym])

declare receiveLoop.simps [simp del]

text \<open>Go's integer division truncates towards zero.\<close>

definition goDiv :: "int \<Rightarrow> int \<Rightarrow> int" where
  "goDiv a b = sgn a * sgn b * (\<bar>a\<bar> div \<bar>b\<bar>)"

text \<open>
  The functions of the session for version 3, declared elsewhere, are parameters:
  \<^verbatim>\<open>buildPacket3\<close>, a function of its arguments, and \<^verbatim>\<open>setAuthoritativeEngine\<close> and
  \<^verbatim>\<open>setAuthoritativeEngine2\<close>, which may use the session and the connection.
\<close>

record deps = encoders +
  buildPacket3 :: "uint32 \<Rightarrow> uint32 list \<Rightarrow> SnmpPacket \<Rightarrow> go_error + SnmpPacket"
  setAuthoritativeEngine ::
    "SnmpPacket \<Rightarrow> bool \<Rightarrow> GoSNMP \<Rightarrow> conn \<Rightarrow> (go_error + SnmpPacket) res \<times> GoSNMP \<times> conn"
  setAuthoritativeEngine2 ::
    "SnmpPacket \<Rightarrow> SnmpPacket \<Rightarrow> SnmpPDU list \<Rightarrow> bool \<Rightarrow> GoSNMP \<Rightarrow> conn
       \<Rightarrow> (SnmpPacket option \<times> go_error option) res \<times> GoSNMP \<times> conn"

definition encodersOf :: "deps \<Rightarrow> encoders" where
  "encodersOf d = encoders.truncate d"

definition helpersOf :: "deps \<Rightarrow> helpers" where
  "helpersOf d = helpers.truncate d"

text \<open>
  One round of the loop of \<^verbatim>\<open>sendOneRequest\<close>, from the deadline of the attempt to
  the end of the round (lines 179-261): the function returns, or the loop goes on
  (\<^verbatim>\<open>continue\<close>) with the packet, the identifiers of the attempts so far, the error
  of this attempt, the session and the connection. A returned value is the pair the
  function returns, together with \<^verbatim>\<open>allReqIDs\<close> as the loop leaves it.
\<close>

type_synonym send_result = "SnmpPacket option \<times> go_error option"

datatype round =
    Return "(send_result \<times> uint32 list) res" GoSNMP conn
  | Continue SnmpPacket "uint32 list" go_error GoSNMP conn

definition attempt ::
  "deps \<Rightarrow> SnmpPDU list \<Rightarrow> bool \<Rightarrow> SnmpPacket \<Rightarrow> uint32 list \<Rightarrow> uint32 list \<Rightarrow> GoSNMP \<Rightarrow> conn
     \<Rightarrow> round" where
  "attempt d pdus wait packetOut allReqIDs allMsgIDs x c =
     (if Retries x + 1 = 0 then Return (Panic ''runtime error: integer divide by zero'') x c
      else
        let reqDeadline = now c + goDiv (Timeout x) (Retries x + 1);
            c1 = c\<lparr>deadline := reqDeadline\<rparr>;
            reqID = requestID x + 1;
            x1 = x\<lparr>requestID := reqID\<rparr>;
            allReqIDs1 = allReqIDs @ [reqID];
            msgID = 0
        in
          (case (if sessionVersion x1 = Version3 then buildPacket3 d msgID allMsgIDs packetOut
                 else Inr packetOut) of
             Inl err3 \<Rightarrow> Return (Ok ((None, Some err3), allReqIDs1)) x1 c1
           | Inr packetOut1 \<Rightarrow>
               (case marshalMsg (encodersOf d) packetOut1 pdus (PDUType packetOut1) msgID reqID of
                  Err errm \<Rightarrow>
                    Return (Ok ((None, Some (Errorf ''marshal: %v'' [ArgErr errm])), allReqIDs1))
                      x1 c1
                | Panic p \<Rightarrow> Return (Panic p) x1 c1
                | Diverge \<Rightarrow> Return Diverge x1 c1
                | Ok outBuf \<Rightarrow>
                    (case connWrite outBuf c1 of
                       (Some errw, c2) \<Rightarrow> Continue packetOut1 allReqIDs1 errw x1 c2
                     | (None, c2) \<Rightarrow>
                         if \<not> wait then Return (Ok ((Some emptyPacket, None), allReqIDs1)) x1 c2
                         else
                           (case receiveLoop (helpersOf d) packetOut1 allReqIDs1 c2 of
                              (Ok result, c3) \<Rightarrow>
                                Return (Ok ((Some result, None), allReqIDs1)) x1 c3
                            | (Err errr, c3) \<Rightarrow> Continue packetOut1 allReqIDs1 errr x1 c3
                            | (Panic p, c3) \<Rightarrow> Return (Panic p) x1 c3
                            | (Diverge, c3) \<Rightarrow> Return Diverge x1 c3)))))"

lemma attempt_Retries:
  "attempt d pdus wait packetOut allReqIDs allMsgIDs x c = Continue packetOut1 allReqIDs1 e x1 c1
   \<Longrightarrow> Retries x1 = Retries x \<and> Retries x + 1 \<noteq> 0"
  by (auto simp: attempt_def Let_def
        split: if_splits sum.splits res.splits prod.splits option.splits)

text \<open>
  The loop of \<^verbatim>\<open>sendOneRequest\<close> (lines 165-262), with its local variables
  \<^verbatim>\<open>retries\<close>, \<^verbatim>\<open>packetOut\<close>, \<^verbatim>\<open>allReqIDs\<close>, \<^verbatim>\<open>allMsgIDs\<close> and \<^verbatim>\<open>err\<close>.
\<close>

function sendLoop ::
  "deps \<Rightarrow> SnmpPDU list \<Rightarrow> bool \<Rightarrow> int \<Rightarrow> int \<Rightarrow> SnmpPacket \<Rightarrow> uint32 list \<Rightarrow> uint32 list
     \<Rightarrow> go_error option \<Rightarrow> GoSNMP \<Rightarrow> conn
     \<Rightarrow> (send_result \<times> uint32 list) res \<times> GoSNMP \<times> conn" where
  "sendLoop d pdus wait finalDeadline retries packetOut allReqIDs allMsgIDs err x c =
     (if retries > 0 \<and> now c > finalDeadline then
        (Ok ((None, Some (Errorf ''Request timeout (after %d retries)'' [ArgInt (retries - 1)])),
             allReqIDs), x, c)
      else if retries > 0 \<and> retries > Retries x then (Ok ((None, err), allReqIDs), x, c)
      else
        (case attempt d pdus wait packetOut allReqIDs allMsgIDs x c of
           Return r x1 c1 \<Rightarrow> (r, x1, c1)
         | Continue packetOut1 allReqIDs1 err1 x1 c1 \<Rightarrow>
             sendLoop d pdus wait finalDeadline (retries + 1) packetOut1 allReqIDs1 allMsgIDs
               (Some err1) x1 c1))"
  by pat_completeness auto
termination
  by (relation "measure (\<lambda>(d, pdus, wait, finalDeadline, retries, packetOut, allReqIDs, allMsgIDs,
        err, x, c). nat (max (Retries x) 0 + 1 - retries))")
     (auto dest!: attempt_Retries)

declare sendLoop.simps [simp del]

text \<open>
  \<^verbatim>\<open>sendOneRequest\<close> (lines 159-266): \<^verbatim>\<open>make\<close> panics on a negative capacity, then
  the loop runs from \<^verbatim>\<open>retries = 0\<close>.
\<close>

definition sendOneRequest ::
  "deps \<Rightarrow> SnmpPDU list \<Rightarrow> SnmpPacket \<Rightarrow> bool \<Rightarrow> GoSNMP \<Rightarrow> conn \<Rightarrow> send_result res \<times> GoSNMP \<times> conn" where
  "sendOneRequest d pdus packetOut wait x c =
     (if Retries x + 1 < 0 then (Panic ''runtime error: makeslice: cap out of range'', x, c)
      else (case sendLoop d pdus wait (now c + Timeout x) 0 packetOut [] [] None x c of
              (r, x', c') \<Rightarrow> (bnd r (\<lambda>(result, allReqIDs). Ok result), x', c')))"

text \<open>
  \<^verbatim>\<open>send\<close> (lines 271-303). The deferred function recovers a panic and returns it
  as the error, with \<^verbatim>\<open>result\<close> as it stands: nil, or the packet of
  \<^verbatim>\<open>sendOneRequest\<close> when \<^verbatim>\<open>setAuthoritativeEngine2\<close> panics.
\<close>

definition recoverWith :: "SnmpPacket option \<Rightarrow> send_result res \<Rightarrow> send_result res" where
  "recoverWith result r =
     (case r of Panic e \<Rightarrow> Ok (result, Some (Errorf ''recover: %v'' [ArgStr e])) | _ \<Rightarrow> r)"

text \<open>Lines 295-302: what \<^verbatim>\<open>send\<close> does with the pair that \<^verbatim>\<open>sendOneRequest\<close> returns.\<close>

definition afterRequest ::
  "deps \<Rightarrow> SnmpPDU list \<Rightarrow> SnmpPacket \<Rightarrow> bool \<Rightarrow> send_result \<Rightarrow> GoSNMP \<Rightarrow> conn
     \<Rightarrow> send_result res \<times> GoSNMP \<times> conn" where
  "afterRequest d pdus packetOut wait r x c =
     (case r of
        (result, Some err) \<Rightarrow> (Ok (result, Some err), x, c)
      | (None, None) \<Rightarrow>
          (Panic ''runtime error: invalid memory address or nil pointer dereference'', x, c)
      | (Some result, None) \<Rightarrow>
          if Version result = Version3 \<and> SecurityModel result = UserSecurityModel then
            (case setAuthoritativeEngine2 d packetOut result pdus wait x c of
               (r2, x2, c2) \<Rightarrow> (recoverWith (Some result) r2, x2, c2))
          else (Ok (Some result, None), x, c))"

text \<open>Lines 287-302, the connection being there and the retry count not negative.\<close>

definition sendBody ::
  "deps \<Rightarrow> SnmpPDU list \<Rightarrow> SnmpPacket \<Rightarrow> bool \<Rightarrow> GoSNMP \<Rightarrow> conn
     \<Rightarrow> send_result res \<times> GoSNMP \<times> conn" where
  "sendBody d pdus packetOut wait x c =
     (case (if Version packetOut = Version3 then setAuthoritativeEngine d packetOut wait x c
            else (Ok (Inr packetOut), x, c)) of
        (r1, x2, c2) \<Rightarrow>
          (case r1 of
             Ok (Inl err) \<Rightarrow> (Ok (Some emptyPacket, Some err), x2, c2)
           | Ok (Inr packetOut1) \<Rightarrow>
               (case sendOneRequest d pdus packetOut1 wait x2 c2 of
                  (r3, x3, c3) \<Rightarrow>
                    (case r3 of
                       Ok r \<Rightarrow> afterRequest d pdus packetOut1 wait r x3 c3
                     | Err e \<Rightarrow> (Ok (None, Some e), x3, c3)
                     | Panic p \<Rightarrow> (Panic p, x3, c3)
                     | Diverge \<Rightarrow> (Diverge, x3, c3)))
           | Err e \<Rightarrow> (Ok (Some emptyPacket, Some e), x2, c2)
           | Panic p \<Rightarrow> (Panic p, x2, c2)
           | Diverge \<Rightarrow> (Diverge, x2, c2)))"

definition send ::
  "deps \<Rightarrow> SnmpPDU list \<Rightarrow> SnmpPacket \<Rightarrow> bool \<Rightarrow> GoSNMP \<Rightarrow> conn option
     \<Rightarrow> send_result res \<times> GoSNMP \<times> conn option" where
  "send d pdus packetOut wait x conn' =
     (case conn' of
        None \<Rightarrow>
          (Ok (None, Some (Errorf
             ''&GoSNMP.Conn is missing. Provide a connection or use Connect()'' [])), x, None)
      | Some c \<Rightarrow>
          (case sendBody d pdus packetOut wait (if Retries x < 0 then x\<lparr>Retries := 0\<rparr> else x) c of
             (r, x', c') \<Rightarrow> (recoverWith None r, x', Some c')))"

section \<open>The codec functions declared outside marshal.go\<close>

text \<open>
  Modelled from the spec: the big-endian value of a sequence of bytes.
\<close>

definition beUint :: "byte list \<Rightarrow> int" where
  "beUint bs = foldl (\<lambda>a b. 256 * a + uint b) 0 bs"

text \<open>
  Modelled from the spec: \<^verbatim>\<open>parseLength\<close>. A length of at most 127 is one byte; otherwise the first
  byte has its high bit set and says how many bytes that follow hold the length. The result
  is the length of the whole field, header included, and the length of the header.
\<close>

definition specParseLength :: "byte list \<Rightarrow> int \<times> int" where
  "specParseLength bytes =
     (case bytes of
        t # l # rest \<Rightarrow>
          if l \<le> 127 then (int (unat l) + 2, 2)
          else let numOctets = unat (l AND 127)
               in (beUint (take numOctets rest) + 2 + int numOctets, 2 + int numOctets)
      | _ \<Rightarrow> (0, 0))"

text \<open>
  Modelled from the spec: the two's-complement value of the content of an integer.
\<close>

definition specParseInt :: "byte list \<Rightarrow> int" where
  "specParseInt bs =
     (case bs of
        [] \<Rightarrow> 0
      | b # _ \<Rightarrow> if b \<ge> 128 then beUint bs - 256 ^ length bs else beUint bs)"

text \<open>
  Modelled from the spec: the arcs of an object identifier after the first two, each a base-128
  number whose bytes all have the continuation bit but the last.
\<close>

fun specVarints :: "int \<Rightarrow> byte list \<Rightarrow> int list" where
  "specVarints acc [] = []"
| "specVarints acc (b # bs) =
     (if b \<ge> 128 then specVarints (128 * acc + uint (b AND 127)) bs
      else (128 * acc + uint b) # specVarints 0 bs)"

text \<open>
  Modelled from the spec: the arcs of an object identifier; the first byte combines the first two.
\<close>

definition specParseOid :: "byte list \<Rightarrow> int list" where
  "specParseOid bs =
     (case bs of
        [] \<Rightarrow> []
      | b # rest \<Rightarrow> int (unat b div 40) # int (unat b mod 40) # specVarints 0 rest)"

text \<open>
  Modelled from the spec: a number in decimal, for \<^verbatim>\<open>oidToString\<close>.
\<close>

function showNat :: "nat \<Rightarrow> string" where
  "showNat n =
     (if n < 10 then [char_of (48 + n)] else showNat (n div 10) @ [char_of (48 + n mod 10)])"
  by pat_completeness auto
termination
  by (relation "measure id") auto

text \<open>
  Modelled from the spec: \<^verbatim>\<open>oidToString\<close>, the dotted form of an object identifier.
\<close>

definition specOidToString :: "int list \<Rightarrow> string" where
  "specOidToString oid = concat (map (\<lambda>a. ''.'' @ showNat (nat a)) oid)"

text \<open>
  Modelled from the spec: a field is a tag byte, a length and a value; its content must lie
  within the buffer.
\<close>

definition specField :: "byte list \<Rightarrow> (byte \<times> byte list \<times> int) option" where
  "specField data =
     (case data of
        t # l # rest \<Rightarrow>
          let (fieldLen, headerLen) = specParseLength data in
          if int (length data) < fieldLen then None
          else Some (t, take (nat (fieldLen - headerLen)) (drop (nat headerLen) data), fieldLen)
      | _ \<Rightarrow> None)"

text \<open>
  Modelled from the spec: \<^verbatim>\<open>parseRawField\<close>, for integers, octet strings and object identifiers.
\<close>

definition specParseRawField :: "byte list \<Rightarrow> string \<Rightarrow> go_error + (go_value \<times> int)" where
  "specParseRawField data msg =
     (case specField data of
        None \<Rightarrow> Inl (Errorf ''Unable to parse %s: truncated field'' [ArgStr msg])
      | Some (t, content, fieldLen) \<Rightarrow>
          if t = Integer then Inr (VInt (specParseInt content), fieldLen)
          else if t = OctetString then Inr (VString (stringOf content), fieldLen)
          else if t = ObjectIdentifier then Inr (VInts (specParseOid content), fieldLen)
          else Inl (Errorf ''Unable to parse %s: unknown field type'' [ArgStr msg]))"

text \<open>
  Modelled from the spec: \<^verbatim>\<open>decodeValue\<close>, for the value kinds of section 3.
\<close>

definition specDecodeValue :: "byte list \<Rightarrow> string \<Rightarrow> go_error + (Asn1BER \<times> go_value)" where
  "specDecodeValue data msg =
     (case specField data of
        None \<Rightarrow> Inl (Errorf ''Unable to decode %s: truncated field'' [ArgStr msg])
      | Some (t, content, fieldLen) \<Rightarrow>
          if t = Integer then Inr (Integer, VInt (specParseInt content))
          else if t = OctetString then Inr (OctetString, VBytes content)
          else if t = Null then Inr (Null, VNil)
          else if t = ObjectIdentifier then
            Inr (ObjectIdentifier, VString (specOidToString (specParseOid content)))
          else if t = IPAddress then
            (if length content = 4 then Inr (IPAddress, VBytes content)
             else Inl (Errorf ''Unable to decode %s: bad IP address'' [ArgStr msg]))
          else if t = Counter32 \<or> t = Gauge32 \<or> t = TimeTicks \<or> t = Uinteger32 then
            Inr (t, VUint32 (word_of_int (beUint content)))
          else if t = NoSuchObject \<or> t = NoSuchInstance \<or> t = EndOfMibView then Inr (t, VNil)
          else Inl (Errorf ''Unable to decode %s: unknown value type'' [ArgStr msg]))"

text \<open>
  Modelled from the spec: the big-endian bytes of a number, as few as hold it.
\<close>

function beBytes :: "nat \<Rightarrow> byte list" where
  "beBytes n = (if n < 256 then [of_nat n] else beBytes (n div 256) @ [of_nat (n mod 256)])"
  by pat_completeness auto
termination
  by (relation "measure id") auto

text \<open>
  Modelled from the spec: \<^verbatim>\<open>marshalLength\<close>; the length 130 is encoded 0x81 0x82.
\<close>

definition specMarshalLength :: "int \<Rightarrow> go_error + byte list" where
  "specMarshalLength n =
     (if n \<le> 127 then Inr [of_int n]
      else let bs = beBytes (nat n) in Inr (of_nat (128 + length bs) # bs))"

text \<open>
  Modelled from the spec: the leading bytes of a base-128 number, with the continuation bit.
\<close>

function base128High :: "nat \<Rightarrow> byte list" where
  "base128High n =
     (if n < 128 then [] else base128High (n div 128) @ [of_nat (128 + (n div 128) mod 128)])"
  by pat_completeness auto
termination
  by (relation "measure id") auto

text \<open>
  Modelled from the spec: an arc as a base-128 number.
\<close>

definition base128 :: "nat \<Rightarrow> byte list" where
  "base128 n = base128High n @ [of_nat (n mod 128)]"

text \<open>
  Modelled from the spec: an identifier in text is made of digits and dots.
\<close>

definition isDotted :: "string \<Rightarrow> bool" where
  "isDotted s = (\<forall>c \<in> set s. c = CHR ''.'' \<or> (48 \<le> (of_char c :: nat) \<and> (of_char c :: nat) \<le> 57))"

text \<open>
  Modelled from the spec: \<^verbatim>\<open>marshalOID\<close>; the first two arcs are combined into one byte.
\<close>

definition specMarshalOID :: "string \<Rightarrow> go_error + byte list" where
  "specMarshalOID oid =
     (if \<not> isDotted oid then Inl (Errorf ''Unable to parse OID: %s'' [ArgStr oid])
      else (case oidArcs oid of
              a # b # rest \<Rightarrow> Inr (of_nat (40 * a + b) # concat (map base128 rest))
            | _ \<Rightarrow> Inl (Errorf ''Unable to parse OID: %s'' [ArgStr oid])))"

text \<open>
  Modelled from the spec: the encoding of a signed integer in the fewest bytes that hold its
  two's complement (300 is 0x01 0x2C), standing in for \<^verbatim>\<open>marshalInt16\<close>.
\<close>

definition specMarshalInt :: "int \<Rightarrow> go_error + byte list" where
  "specMarshalInt v =
     (if 0 \<le> v then
        (let bs = beBytes (nat v) in Inr (if hd bs \<ge> 128 then 0 # bs else bs))
      else
        (let n = length (beBytes (nat (- v - 1)));
             bs = beBytes (nat (256 ^ n + v))
         in Inr (if length bs < n \<or> hd bs < 128 then 255 # replicate (n - Suc (length bs)) 255 @ bs else bs)))"

text \<open>
  Modelled from the spec: \<^verbatim>\<open>marshalUint32\<close>, the big-endian unsigned value.
\<close>

definition specMarshalUint32 :: "uint32 \<Rightarrow> go_error + byte list" where
  "specMarshalUint32 v = Inr (beBytes (unat v))"

text \<open>
  Modelled from the spec: the functions above, put together. Version 3 is left out; \<^verbatim>\<open>Check\<close>
  returns on nil and ends the run otherwise; \<^verbatim>\<open>authenticate\<close> leaves a message without
  the authentication flag as it is.
\<close>

definition specEncoders :: encoders where
  "specEncoders = \<lparr>parseLength = specParseLength, parseRawField = specParseRawField,
     decodeValue = specDecodeValue, oidToString = specOidToString,
     unmarshalV3 = (\<lambda>packet cursor flags engineID response.
        Err (Errorf ''SNMP version 3 is not modelled'' [])),
     marshalLength = specMarshalLength, marshalOID = specMarshalOID,
     marshalInt16 = specMarshalInt, marshalUint32 = specMarshalUint32,
     ipv4OfString = (\<lambda>s. map of_nat (oidArcs s)),
     Check = (\<lambda>err. case err of None \<Rightarrow> Ok () | Some e \<Rightarrow> Panic ''os.Exit(1)''),
     authenticate = (\<lambda>packet msg authParamStart. Inr msg),
     marshalV3 = (\<lambda>packet pdus msgid requestid.
        Err (Errorf ''SNMP version 3 is not modelled'' []))\<rparr>"

text \<open>The same functions with those of the session for version 3, which is left out.\<close>

definition specDeps :: deps where
  "specDeps = encoders.extend specEncoders
     (deps.fields
        (\<lambda>msgID allMsgIDs packetOut. Inl (Errorf ''SNMP version 3 is not modelled'' []))
        (\<lambda>packetOut wait x c. (Err (Errorf ''SNMP version 3 is not modelled'' []), x, c))
        (\<lambda>packetOut result pdus wait x c.
           (Err (Errorf ''SNMP version 3 is not modelled'' []), x, c)))"

definition specHelpers :: helpers where
  "specHelpers = helpers.truncate specEncoders"

text \<open>A version 1 packet with the community \<open>public\<close>, as the exporter's client sends.\<close>

definition v1Packet :: "PDUType \<Rightarrow> SnmpPacket" where
  "v1Packet t = emptyPacket\<lparr>Version := Version1, Community := ''public'', PDUType := t\<rparr>"

definition v1Session :: "int \<Rightarrow> int \<Rightarrow> GoSNMP" where
  "v1Session timeout retries =
     \<lparr>sessionVersion = Version1, Timeout = timeout, Retries = retries, requestID = 6\<rparr>"

definition freshConn :: "rx_event list \<Rightarrow> conn" where
  "freshConn rs = \<lparr>now = 1000, deadline = 0, writes = [], reads = rs, sent = []\<rparr>"

section \<open>Notions used to state the properties of the session and the codec\<close>

text \<open>The two errors that end a request nobody answers.\<close>

definition udpTimeout :: go_error where
  "udpTimeout = Errorf ''Error reading from UDP: %s'' [ArgErr ioTimeout]"

definition requestTimeout :: "nat \<Rightarrow> go_error" where
  "requestTimeout n = Errorf ''Request timeout (after %d retries)'' [ArgInt (int n)]"

text \<open>
  Datagrams for concrete runs: a version 1 response with request identifier 7 and no
  binding, the same with one integer binding, and the latter with the length byte of its
  PDU one too small.
\<close>

definition emptyResponse :: "byte list" where
  "emptyResponse = [48, 27, 2, 1, 0, 4, 6, 112, 117, 98, 108, 105, 99, 162, 14,
     2, 4, 0, 0, 0, 7, 2, 1, 0, 2, 1, 0, 48, 0]"

definition integerResponse :: "byte list" where
  "integerResponse = [48, 44, 2, 1, 0, 4, 6, 112, 117, 98, 108, 105, 99, 162, 31,
     2, 4, 0, 0, 0, 7, 2, 1, 0, 2, 1, 0, 48, 17, 48, 15, 6, 9, 43, 6, 1, 4, 1, 179, 46,
     1, 2, 2, 2, 1, 44]"

definition shortPduResponse :: "byte list" where
  "shortPduResponse = [48, 44, 2, 1, 0, 4, 6, 112, 117, 98, 108, 105, 99, 162, 30,
     2, 4, 0, 0, 0, 7, 2, 1, 0, 2, 1, 0, 48, 17, 48, 15, 6, 9, 43, 6, 1, 4, 1, 179, 46,
     1, 2, 2, 2, 1, 44]"

definition temperature :: SnmpPDU where
  "temperature = \<lparr>Name = ''.1.3.6.1.4.1.6574.1.2'', Type = Integer, Value = VInt 300\<rparr>"

definition probe :: "SnmpPDU list" where
  "probe = [\<lparr>Name = ''.1.3.6.1.4.1.6574.1.2'', Type = Null, Value = VNil\<rparr>]"

text \<open>A binding whose value is an octet string of \<open>n\<close> bytes.\<close>

definition octets :: "nat \<Rightarrow> SnmpPDU" where
  "octets n = \<lparr>Name = ''.1.3.6.1.2.1.1.1.0'', Type = OctetString, Value = VBytes (replicate n 97)\<rparr>"

section \<open>Properties of the walk\<close>

lemma forVariables_yielded:
  "\<forall>u \<in> set before. passes rootOid oid u \<Longrightarrow> yieldAll walkFn before w = (None, w') \<Longrightarrow>
   forVariables rootOid oid walkFn (before @ rest) w = forVariables rootOid oid walkFn rest w'"
proof (induction before arbitrary: w)
  case Nil
  then show ?case by simp
next
  case (Cons u us)
  from Cons.prems(1) have pu: "passes rootOid oid u"
    and pus: "\<forall>u \<in> set us. passes rootOid oid u"
    by simp_all
  obtain e w1 where f: "walkFn u w = (e, w1)" by (cases "walkFn u w")
  with Cons.prems(2) have e: "e = None" and y: "yieldAll walkFn us w1 = (None, w')"
    by (cases e; simp)+
  from pu f e have "forVariables rootOid oid walkFn ((u # us) @ rest) w
      = forVariables rootOid oid walkFn (us @ rest) w1"
    by (simp add: passes_def)
  with Cons.IH [OF pus y] show ?case by simp
qed

lemma yieldAll_collect: "yieldAll collect vs results = (None, results @ vs)"
  by (induction vs arbitrary: results) (simp_all add: collect_def)

text \<open>
  Claim C10. The walk normalizes its root before the first request: an empty root or
  the root \<open>''.''\<close> is replaced by the default base identifier, a root that does not
  begin with \<open>''.''\<close> (the default included) gets \<open>''.''\<close> prepended, any other root
  is kept; the request loop then runs with the normalized root both as the root of its
  prefix checks and as the identifier of its first request.
\<close>

theorem walk_normalizes_root:
  "walk env getRequestType rootOid walkFn w x
     = RequestLoop env getRequestType (walkMaxReps env) (walkRoot env rootOid) walkFn
         (walkRoot env rootOid) 0 w x
   \<and> (rootOid = [] \<or> rootOid = ''.'' \<longrightarrow>
        walkRoot env rootOid
          = (if prefix ''.'' (baseOid env) then baseOid env else ''.'' @ baseOid env))
   \<and> (rootOid \<noteq> [] \<and> \<not> prefix ''.'' rootOid \<longrightarrow> walkRoot env rootOid = ''.'' @ rootOid)
   \<and> (rootOid \<noteq> ''.'' \<and> prefix ''.'' rootOid \<longrightarrow> walkRoot env rootOid = rootOid)
   \<and> prefix ''.'' (walkRoot env rootOid)"
proof -
  have empty: "\<not> prefix ''.'' []" by simp
  have dotted: "prefix ''.'' (''.'' @ s)" for s :: string by simp
  show ?thesis
    unfolding walk_def walkRoot_def Let_def
    using empty dotted by (auto simp del: prefix_code)
qed

theorem walk_normalizes_root_witness:
  "walkRoot (scriptedEnv []) [] = ''.1.3.6.1.2.1''
   \<and> walkRoot (scriptedEnv []) ''.'' = ''.1.3.6.1.2.1''
   \<and> walkRoot (scriptedEnv []) ''1.3.6'' = ''.1.3.6''
   \<and> walkRoot (scriptedEnv []) ''.1.3.6'' = ''.1.3.6''"
  using walk_normalizes_root [of "scriptedEnv []" GetNextRequest "[]" collect "[]" "[]"]
    walk_normalizes_root [of "scriptedEnv []" GetNextRequest "''.''" collect "[]" "[]"]
    walk_normalizes_root [of "scriptedEnv []" GetNextRequest "''1.3.6''" collect "[]" "[]"]
    walk_normalizes_root [of "scriptedEnv []" GetNextRequest "''.1.3.6''" collect "[]" "[]"]
  by (simp add: scriptedEnv_def)

text \<open>
  Claim C7, as the code has it. The walk leaves a response alone when its error status is
  \<^verbatim>\<open>NoSuchName\<close>, and it checks every binding against the requested identifier.
  So: when a response whose error status is not \<^verbatim>\<open>NoSuchName\<close> holds a binding \<open>v\<close>
  whose type is end-of-mib-view, no-such-object or no-such-instance, or whose identifier
  does not have the walk's root as a prefix, and each binding before \<open>v\<close> in that response
  passes the walk's checks (it is no such binding itself and is not named as the requested
  identifier) and is accepted by the callback, then the walk has yielded the bindings
  before \<open>v\<close> and returns without error: nothing from \<open>v\<close> on is yielded and no further
  request is made.
\<close>

theorem walk_ends_at_terminator:
  assumes get: "getFn env getRequestType maxReps oid x = (Inr response, x')"
    and vars: "Variables response = before @ v # after"
    and status: "Error response \<noteq> NoSuchName"
    and before: "\<forall>u \<in> set before. passes rootOid oid u"
    and yielded: "yieldAll walkFn before w = (None, w')"
    and v: "Type v = EndOfMibView \<or> Type v = NoSuchObject \<or> Type v = NoSuchInstance
              \<or> \<not> prefix rootOid (Name v)"
  shows "RequestLoop env getRequestType maxReps rootOid walkFn oid requests w x
           = Some (None, w', x', Suc requests)"
proof -
  have "forVariables rootOid oid walkFn (v # after) w' = (BreakRequestLoop, w')"
    using v by auto
  then have "forVariables rootOid oid walkFn (Variables response) w = (BreakRequestLoop, w')"
    using forVariables_yielded [OF before yielded] vars by simp
  then show ?thesis
    using get vars status by (subst RequestLoop.simps) simp
qed

theorem walk_ends_at_terminator_witness:
  "RequestLoop
     (scriptedEnv [[binding ''.1.3.1'' Integer 7, binding ''.1.3.2'' EndOfMibView 0,
                    binding ''.1.3.3'' Integer 9]])
     GetNextRequest 50 ''.1.3'' collect ''.1.3'' 0 [] []
   = Some (None, [binding ''.1.3.1'' Integer 7], [''.1.3''], Suc 0)"
proof (rule walk_ends_at_terminator
    [where before = "[binding ''.1.3.1'' Integer 7]" and v = "binding ''.1.3.2'' EndOfMibView 0"
       and after = "[binding ''.1.3.3'' Integer 9]"])
  show "getFn
     (scriptedEnv [[binding ''.1.3.1'' Integer 7, binding ''.1.3.2'' EndOfMibView 0,
                    binding ''.1.3.3'' Integer 9]]) GetNextRequest 50 ''.1.3'' []
     = (Inr (emptyPacket\<lparr>PDUType := GetResponse,
           Variables := [binding ''.1.3.1'' Integer 7, binding ''.1.3.2'' EndOfMibView 0,
                    binding ''.1.3.3'' Integer 9]\<rparr>), [''.1.3''])"
    by (simp add: getFn_def scriptedEnv_def scripted_def GetNextRequest_def GetBulkRequest_def)
qed (simp_all add: emptyPacket_def NoSuchName_def passes_def binding_def collect_def
       Integer_def EndOfMibView_def NoSuchObject_def NoSuchInstance_def)

text \<open>
  Claim C7, as stated, fails. The walk below asks for \<open>''.1.3.5''\<close>; the response holds
  a binding named \<open>''.1.3.5''\<close> and then an end-of-mib-view binding. The walk does not end
  without error: it returns ``OID not increasing''.
\<close>

theorem walk_reports_error_before_end_marker:
  "walkAll
     (scriptedEnv [[binding ''.1.3.5'' Integer 1, binding ''.1.3.6'' EndOfMibView 0]])
     GetNextRequest ''.1.3.5'' []
   = Some ([], Some (Errorf ''OID not increasing: %s'' [ArgStr ''.1.3.5'']), [''.1.3.5''])"
  by code_simp

text \<open>
  Claim C3, as the code has it. The loop compares a binding's identifier with the
  identifier of the running request for equality only. When the walk comes to a binding
  under the root, not an end marker, whose identifier equals the identifier \<open>oid\<close>
  that was requested, it returns the ``OID not increasing'' error; the bindings before
  it in the response have been yielded, the binding itself and those after it are not.
\<close>

theorem walk_stops_when_cursor_returned:
  assumes get: "getFn env getRequestType maxReps oid x = (Inr response, x')"
    and vars: "Variables response = before @ v # after"
    and status: "Error response \<noteq> NoSuchName"
    and before: "\<forall>u \<in> set before. passes rootOid oid u"
    and yielded: "yieldAll walkFn before w = (None, w')"
    and v: "Name v = oid" "prefix rootOid (Name v)"
      "Type v \<noteq> EndOfMibView" "Type v \<noteq> NoSuchObject" "Type v \<noteq> NoSuchInstance"
  shows "RequestLoop env getRequestType maxReps rootOid walkFn oid requests w x
           = Some (Some (Errorf ''OID not increasing: %s'' [ArgStr oid]), w', x', Suc requests)"
proof -
  have "forVariables rootOid oid walkFn (v # after) w'
          = (ReturnErr (Errorf ''OID not increasing: %s'' [ArgStr oid]), w')"
    using v by simp
  then have "forVariables rootOid oid walkFn (Variables response) w
          = (ReturnErr (Errorf ''OID not increasing: %s'' [ArgStr oid]), w')"
    using forVariables_yielded [OF before yielded] vars by simp
  then show ?thesis
    using get vars status by (subst RequestLoop.simps) simp
qed

theorem walk_stops_when_cursor_returned_witness:
  "RequestLoop
     (scriptedEnv [[binding ''.1.3.6'' Integer 7, binding ''.1.3.5'' Integer 8,
                    binding ''.1.3.7'' Integer 9]])
     GetNextRequest 50 ''.1.3'' collect ''.1.3.5'' 0 [] []
   = Some (Some (Errorf ''OID not increasing: %s'' [ArgStr ''.1.3.5'']),
           [binding ''.1.3.6'' Integer 7], [''.1.3.5''], Suc 0)"
proof (rule walk_stops_when_cursor_returned
    [where before = "[binding ''.1.3.6'' Integer 7]" and v = "binding ''.1.3.5'' Integer 8"
       and after = "[binding ''.1.3.7'' Integer 9]"])
  show "getFn
     (scriptedEnv [[binding ''.1.3.6'' Integer 7, binding ''.1.3.5'' Integer 8,
                    binding ''.1.3.7'' Integer 9]]) GetNextRequest 50 ''.1.3.5'' []
     = (Inr (emptyPacket\<lparr>PDUType := GetResponse,
           Variables := [binding ''.1.3.6'' Integer 7, binding ''.1.3.5'' Integer 8,
                    binding ''.1.3.7'' Integer 9]\<rparr>), [''.1.3.5''])"
    by (simp add: getFn_def scriptedEnv_def scripted_def GetNextRequest_def GetBulkRequest_def)
qed (simp_all add: emptyPacket_def NoSuchName_def passes_def binding_def collect_def
       Integer_def EndOfMibView_def NoSuchObject_def NoSuchInstance_def)

text \<open>
  Claim C3, as stated, fails. The walk below asks for \<open>''.1.3''\<close>, then for
  \<open>''.1.3.5''\<close>; the answer to the second request is the binding \<open>''.1.3.2''\<close>,
  lexicographically smaller than the cursor \<open>''.1.3.5''\<close>. The walk yields it, asks
  for \<open>''.1.3.2''\<close> and ends without error on the end-of-mib-view that follows.
\<close>

theorem walk_yields_smaller_identifier:
  "oidArcs ''.1.3.2'' < oidArcs ''.1.3.5''
   \<and> walkAll
       (scriptedEnv [[binding ''.1.3.5'' Integer 1], [binding ''.1.3.2'' Integer 2],
                     [binding ''.1.3.2'' EndOfMibView 0]])
       GetNextRequest ''.1.3'' []
     = Some ([binding ''.1.3.5'' Integer 1, binding ''.1.3.2'' Integer 2], None,
             [''.1.3'', ''.1.3.5'', ''.1.3.2''])"
proof
  show "oidArcs ''.1.3.2'' < oidArcs ''.1.3.5''"
    by (simp add: oidArcs_def atoiDigits_def)
next
  show "walkAll
       (scriptedEnv [[binding ''.1.3.5'' Integer 1], [binding ''.1.3.2'' Integer 2],
                     [binding ''.1.3.2'' EndOfMibView 0]])
       GetNextRequest ''.1.3'' []
     = Some ([binding ''.1.3.5'' Integer 1, binding ''.1.3.2'' Integer 2], None,
             [''.1.3'', ''.1.3.5'', ''.1.3.2''])"
    by code_simp
qed

section \<open>Properties of the session\<close>

subsection \<open>The receive loop, one attempt and the loop of attempts\<close>



lemma receive_datagram:
  "reads c = Datagram dg # rest \<Longrightarrow> length dg < rxBufSize \<Longrightarrow> receive c = (Inr dg, c\<lparr>reads := rest\<rparr>)"
  by (simp add: receive_def connRead_def Let_def)

lemma receive_keeps_deadline: "receive c = (Inr resp, c') \<Longrightarrow> deadline c' = deadline c"
  by (auto simp: receive_def connRead_def Let_def split: list.splits rx_event.splits if_splits)

lemma receiveLoop_lost:
  "reads c = Lost late # rest \<Longrightarrow>
   receiveLoop h packetOut allReqIDs c =
     (Err udpTimeout, c\<lparr>now := max (now c) (deadline c) + int late, reads := rest\<rparr>)"
  by (subst receiveLoop.simps) (simp add: receive_def connRead_def udpTimeout_def)


lemma receiveLoop_Ok:
  "receiveLoop h packetOut allReqIDs c = (Ok result, c') \<Longrightarrow>
   Variables result \<noteq> [] \<and> validID allReqIDs result"
proof (induction "length (reads c)" arbitrary: c rule: less_induct)
  case less
  obtain r c1 where rc: "receive c = (r, c1)" by (cases "receive c")
  show ?case
  proof (cases r)
    case (Inl e)
    with rc less.prems show ?thesis by (subst (asm) receiveLoop.simps) simp
  next
    case (Inr resp)
    with rc have shorter: "length (reads c1) < length (reads c)"
      by (simp add: receive_consumes)
    note IH = less.hyps [OF shorter]
    from less.prems rc Inr show ?thesis
      by (subst (asm) receiveLoop.simps) (auto split: res.splits if_splits dest: IH)
  qed
qed

lemma attempt_Return_Some:
  assumes "attempt d pdus True packetOut allReqIDs allMsgIDs x c = Return (Ok ((Some result, e), ids)) x' c'"
  shows "Variables result \<noteq> []"
proof -
  have "\<exists>p c2. receiveLoop (helpersOf d) p ids c2 = (Ok result, c')"
    using assms
    by (auto simp: attempt_def Let_def
          split: if_splits sum.splits res.splits prod.splits option.splits)
  then show ?thesis by (auto dest: receiveLoop_Ok)
qed

lemma sendLoop_Ok:
  "sendLoop d pdus True finalDeadline retries packetOut allReqIDs allMsgIDs err x c
     = (Ok ((Some result, e), ids), x', c') \<Longrightarrow> Variables result \<noteq> []"
proof (induction "nat (max (Retries x) 0 + 1 - retries)"
        arbitrary: retries packetOut allReqIDs err x c rule: less_induct)
  case less
  show ?case
  proof (cases "attempt d pdus True packetOut allReqIDs allMsgIDs x c")
    case (Return r x1 c1)
    with less.prems show ?thesis
      by (subst (asm) sendLoop.simps) (auto split: if_splits dest: attempt_Return_Some)
  next
    case (Continue packetOut1 allReqIDs1 err1 x1 c1)
    from attempt_Retries [OF Continue] have R: "Retries x1 = Retries x" by simp
    from less.prems Continue have go: "\<not> (retries > 0 \<and> retries > Retries x)"
      and rec: "sendLoop d pdus True finalDeadline (retries + 1) packetOut1 allReqIDs1 allMsgIDs
                  (Some err1) x1 c1 = (Ok ((Some result, e), ids), x', c')"
      by (subst (asm) sendLoop.simps; simp split: if_splits)+
    from go R have "nat (max (Retries x1) 0 + 1 - (retries + 1)) < nat (max (Retries x) 0 + 1 - retries)"
      by auto
    from less.hyps [OF this rec] show ?thesis .
  qed
qed

lemma upt_shift: "map f [0..<Suc m] = f 0 # map (\<lambda>i. f (Suc i)) [0..<m]"
  by (simp add: upt_conv_Cons map_Suc_upt [symmetric] del: upt_Suc)

lemma attempt_lost:
  assumes ver: "sessionVersion x \<noteq> Version3"
    and marshal: "marshalMsg (encodersOf d) packetOut pdus (PDUType packetOut) 0 (requestID x + 1) = Ok buf"
    and R: "0 \<le> Retries x"
    and w: "writes c = []" and rd: "reads c = Lost l # rs"
  shows "attempt d pdus True packetOut ids mids x c
     = Continue packetOut (ids @ [requestID x + 1]) udpTimeout (x\<lparr>requestID := requestID x + 1\<rparr>)
         (c\<lparr>deadline := now c + goDiv (Timeout x) (Retries x + 1),
            sent := sent c @ [(now c, now c + goDiv (Timeout x) (Retries x + 1), buf)],
            now := now c + max 0 (goDiv (Timeout x) (Retries x + 1)) + int l, reads := rs\<rparr>)"
  using ver marshal R w rd
  by (simp add: attempt_def Let_def connWrite_def receiveLoop_lost max_def)

lemma sendLoop_all_lost:
  fixes n :: nat
  assumes ver: "sessionVersion x \<noteq> Version3"
    and marshal: "\<And>r. \<exists>buf. marshalMsg (encodersOf d) packetOut pdus (PDUType packetOut) 0 r = Ok buf"
    and R: "Retries x = int n"
    and w: "writes c = []" and rd: "reads c = map Lost ls"
    and k: "k + length ls = n + 1"
    and err: "0 < k \<longrightarrow> err = Some udpTimeout"
    and inv: "\<forall>m < length ls. 0 < k + m \<longrightarrow>
                now c + int m * max 0 (goDiv (Timeout x) (int n + 1))
                  + sum_list (map int (take m ls)) \<le> fd"
  shows "\<exists>c'. sendLoop d pdus True fd (int k) packetOut ids mids err x c
      = (Ok ((None, Some (if now c' > fd then requestTimeout n else udpTimeout)),
             ids @ map (\<lambda>i. requestID x + 1 + of_nat i) [0..<length ls]),
         x\<lparr>requestID := requestID x + of_nat (length ls)\<rparr>, c')
      \<and> now c' = now c + int (length ls) * max 0 (goDiv (Timeout x) (int n + 1))
                  + sum_list (map int ls)
      \<and> map (\<lambda>(t, dl, b). dl - t) (sent c')
          = map (\<lambda>(t, dl, b). dl - t) (sent c)
            @ replicate (length ls) (goDiv (Timeout x) (int n + 1))"
  using ver R w rd k err inv
proof (induction ls arbitrary: k err ids x c)
  case Nil
  then have "int k = int n + 1" by simp
  with Nil show ?case
    by (subst sendLoop.simps) (auto simp: requestTimeout_def)
next
  case (Cons l ls)
  let ?q = "goDiv (Timeout x) (int n + 1)"
  let ?x1 = "x\<lparr>requestID := requestID x + 1\<rparr>"
  from marshal [of "requestID x + 1"] obtain buf where
    buf: "marshalMsg (encodersOf d) packetOut pdus (PDUType packetOut) 0 (requestID x + 1) = Ok buf"
    by blast
  let ?c1 = "c\<lparr>deadline := now c + ?q, sent := sent c @ [(now c, now c + ?q, buf)],
               now := now c + max 0 ?q + int l, reads := map Lost ls\<rparr>"
  from Cons.prems have kn: "k \<le> n" by simp
  have att: "attempt d pdus True packetOut ids mids x c
               = Continue packetOut (ids @ [requestID x + 1]) udpTimeout ?x1 ?c1"
    using attempt_lost [OF Cons.prems(1) buf, where c = c and l = l and rs = "map Lost ls"
        and ids = ids and mids = mids] Cons.prems
    by (simp add: add.commute)
  have now_ok: "\<not> (int k > 0 \<and> now c > fd)"
    using Cons.prems(7) [rule_format, of 0] by auto
  have retry_ok: "\<not> (int k > 0 \<and> int k > Retries x)"
    using kn Cons.prems(2) by simp
  have unfold: "sendLoop d pdus True fd (int k) packetOut ids mids err x c
      = sendLoop d pdus True fd (int (Suc k)) packetOut (ids @ [requestID x + 1]) mids
          (Some udpTimeout) ?x1 ?c1"
    using att now_ok retry_ok
    by (subst sendLoop.simps) (auto simp: add.commute)
  have inv': "\<forall>m < length ls. 0 < Suc k + m \<longrightarrow>
                now ?c1 + int m * max 0 (goDiv (Timeout ?x1) (int n + 1))
                  + sum_list (map int (take m ls)) \<le> fd"
  proof (intro allI impI)
    fix m assume m: "m < length ls"
    from Cons.prems(7) [rule_format, of "Suc m"] m
    show "now ?c1 + int m * max 0 (goDiv (Timeout ?x1) (int n + 1))
            + sum_list (map int (take m ls)) \<le> fd"
      by (simp add: algebra_simps)
  qed
  from Cons.IH [where x = ?x1 and c = ?c1 and k = "Suc k" and err = "Some udpTimeout"
      and ids = "ids @ [requestID x + 1]"]
    Cons.prems inv'
  obtain c' where
    run: "sendLoop d pdus True fd (int (Suc k)) packetOut (ids @ [requestID x + 1]) mids
            (Some udpTimeout) ?x1 ?c1
          = (Ok ((None, Some (if now c' > fd then requestTimeout n else udpTimeout)),
                 (ids @ [requestID x + 1]) @ map (\<lambda>i. requestID ?x1 + 1 + of_nat i) [0..<length ls]),
             ?x1\<lparr>requestID := requestID ?x1 + of_nat (length ls)\<rparr>, c')"
    and clock: "now c' = now ?c1 + int (length ls) * max 0 (goDiv (Timeout ?x1) (int n + 1))
                  + sum_list (map int ls)"
    and dls: "map (\<lambda>(t, dl, b). dl - t) (sent c')
          = map (\<lambda>(t, dl, b). dl - t) (sent ?c1)
            @ replicate (length ls) (goDiv (Timeout ?x1) (int n + 1))"
    by auto
  show ?case
  proof (intro exI [of _ c'] conjI)
    show "sendLoop d pdus True fd (int k) packetOut ids mids err x c
      = (Ok ((None, Some (if now c' > fd then requestTimeout n else udpTimeout)),
             ids @ map (\<lambda>i. requestID x + 1 + of_nat i) [0..<length (l # ls)]),
         x\<lparr>requestID := requestID x + of_nat (length (l # ls))\<rparr>, c')"
      using unfold run by (simp add: upt_shift ac_simps del: upt_Suc)
    show "now c' = now c + int (length (l # ls)) * max 0 ?q + sum_list (map int (l # ls))"
      using clock by (simp add: algebra_simps)
    show "map (\<lambda>(t, dl, b). dl - t) (sent c')
          = map (\<lambda>(t, dl, b). dl - t) (sent c) @ replicate (length (l # ls)) ?q"
      using dls by (simp add: replicate_append_same)
  qed
qed

lemma unmarshal_empty: "unmarshal h [] (Some r) = Panic ''runtime error: index out of range''"
  by (simp add: unmarshal_def Let_def indexAt_def bnd_def)

lemma recoverWith_no_panic: "recoverWith result r \<noteq> Panic p"
  by (cases r) (simp_all add: recoverWith_def)

lemma send_no_panic: "fst (send d pdus packetOut wait x conn') \<noteq> Panic p"
  by (simp add: send_def recoverWith_no_panic split: option.split prod.split)

lemma attempt_empty_datagram:
  assumes ver: "sessionVersion x \<noteq> Version3"
    and marshal: "marshalMsg (encodersOf d) packetOut pdus (PDUType packetOut) 0 (requestID x + 1) = Ok buf"
    and R: "0 \<le> Retries x"
    and w: "writes c = []" and rd: "reads c = Datagram [] # rest"
  shows "\<exists>x' c'. attempt d pdus True packetOut ids mids x c
     = Return (Panic ''runtime error: index out of range'') x' c'"
  using assms
  by (simp add: attempt_def Let_def connWrite_def receiveLoop.simps [of _ _ _ "c\<lparr>deadline := _, sent := _\<rparr>"]
        receive_datagram [where rest = rest] rxBufSize_def unmarshal_empty)

lemma send_empty_datagram:
  assumes pver: "Version packetOut \<noteq> Version3" and ver: "sessionVersion x \<noteq> Version3"
    and marshal: "marshalMsg (encodersOf d) packetOut pdus (PDUType packetOut) 0 (requestID x + 1) = Ok buf"
    and w: "writes c = []" and rd: "reads c = Datagram [] # rest"
  shows "fst (send d pdus packetOut True x (Some c))
     = Ok (None, Some (Errorf ''recover: %v'' [ArgStr ''runtime error: index out of range'']))"
proof -
  define x0 where "x0 = (if Retries x < 0 then x\<lparr>Retries := 0\<rparr> else x)"
  have R: "0 \<le> Retries x0" by (simp add: x0_def)
  have v: "sessionVersion x0 \<noteq> Version3" using ver by (simp add: x0_def)
  have m: "marshalMsg (encodersOf d) packetOut pdus (PDUType packetOut) 0 (requestID x0 + 1) = Ok buf"
    using marshal by (simp add: x0_def)
  from attempt_empty_datagram [OF v m R w rd, of "[]" "[]"]
  obtain x' c' where "attempt d pdus True packetOut [] [] x0 c
     = Return (Panic ''runtime error: index out of range'') x' c'" by blast
  then have "sendOneRequest d pdus packetOut True x0 c
               = (Panic ''runtime error: index out of range'', x', c')"
    using R by (simp add: sendOneRequest_def sendLoop.simps [of _ _ _ _ 0] bnd_def)
  then have "sendBody d pdus packetOut True x0 c
               = (Panic ''runtime error: index out of range'', x', c')"
    using pver by (simp add: sendBody_def)
  then show ?thesis
    by (simp add: send_def recoverWith_def x0_def [symmetric])
qed

lemma unmarshalVBL_empty:
  assumes "parseLength h [0x30, 0x00] = (2, cursor)"
  shows "unmarshalVBL h [0x30, 0x00] response n = Ok response"
  using assms by (simp add: unmarshalVBL_def indexAt_def bnd_def)

subsection \<open>Concrete runs\<close>

lemma marshal_probe:
  "\<exists>buf. marshalMsg (encodersOf specDeps) (v1Packet GetRequest) probe
            (PDUType (v1Packet GetRequest)) 0 r = Ok buf"
proof -
  have vbl: "marshalVBL (encodersOf specDeps) probe
               = Ok [48, 15, 48, 13, 6, 9, 43, 6, 1, 4, 1, 179, 46, 1, 2, 5, 0]"
    by code_simp
  have l1: "marshalLength (encodersOf specDeps) 29 = Inr [29]" by code_simp
  have l2: "marshalLength (encodersOf specDeps) 42 = Inr [42]" by code_simp
  have auth: "authenticate (encodersOf specDeps) p m a = Inr m" for p m a
    by (simp add: encodersOf_def specDeps_def specEncoders_def encoders.defs deps.defs)
  show ?thesis
    by (simp add: marshalMsg_def marshalPDU_def vbl l1 l2 auth bnd_def Let_def v1Packet_def
          emptyPacket_def bigEndian32_def bytesOf_def Version1_def Version3_def
          GetRequest_def GetBulkRequest_def)
qed



lemma sendOneRequest_integerResponse:
  "fst (sendOneRequest specDeps probe (v1Packet GetRequest) True (v1Session 2000 0)
          (freshConn [Datagram integerResponse]))
     = Ok (Some ((v1Packet GetResponse)\<lparr>RequestID := 7, Variables := [temperature]\<rparr>), None)"
  by code_simp

lemma receive_emptyResponse:
  "receive (freshConn [Datagram emptyResponse]) = (Inr emptyResponse, freshConn [])"
  by (simp add: receive_def connRead_def freshConn_def Let_def emptyResponse_def rxBufSize_def)

lemma unmarshal_emptyResponse:
  "unmarshal specHelpers emptyResponse (Some (freshResult (v1Packet GetRequest)))
     = Ok ((v1Packet GetResponse)\<lparr>RequestID := 7\<rparr>)"
  by code_simp

lemma receive_truncated:
  "receive (freshConn [Datagram [48, 5, 2]]) = (Inr [48, 5, 2], freshConn [])"
  by (simp add: receive_def connRead_def freshConn_def Let_def rxBufSize_def)

lemma unmarshal_truncated:
  "unmarshal specHelpers [48, 5, 2] (Some (freshResult (v1Packet GetRequest)))
     = Err (Errorf ''Error verifying packet sanity: Got %d Expected: %d'' [ArgInt 3, ArgInt 7])"
  by code_simp

lemma specParseLength_empty_list: "parseLength specHelpers [0x30, 0x00] = (2, 2)"
  by code_simp

subsection \<open>Matching of request identifiers\<close>




subsection \<open>Retries\<close>

text \<open>
  Claim C2, as the code has it. A session of version 1 or 2c has retry count \<open>n\<close>; its
  request encodes and its writes succeed; every read times out, read number \<open>k\<close>
  returning \<open>lates ! k\<close> units of time after its deadline. If the clock has not passed
  the overall deadline (the start plus the total timeout) when each retry begins, the
  loop makes exactly \<open>n + 1\<close> attempts: the identifiers of the attempts are the
  \<open>n + 1\<close> that follow the counter of the session, each datagram is written under a
  deadline of the total timeout divided by \<open>n + 1\<close> from the time of its attempt, and
  the function returns an error of timeout: ``Request timeout (after n retries)'' if the
  clock has passed the overall deadline by then, the timeout of the last read otherwise.
\<close>

theorem sendOneRequest_all_lost:
  fixes n :: nat
  assumes ver: "sessionVersion x \<noteq> Version3"
    and marshal: "\<And>r. \<exists>buf. marshalMsg (encodersOf d) packetOut pdus (PDUType packetOut) 0 r = Ok buf"
    and R: "Retries x = int n"
    and w: "writes c = []" and rd: "reads c = map Lost lates" and len: "length lates = n + 1"
    and clock: "\<forall>m \<in> {1..n}. int m * max 0 (goDiv (Timeout x) (int n + 1))
                  + sum_list (map int (take m lates)) \<le> Timeout x"
  shows "\<exists>c'. sendLoop d pdus True (now c + Timeout x) 0 packetOut [] [] None x c
           = (Ok ((None, Some (if now c' > now c + Timeout x then requestTimeout n else udpTimeout)),
                  map (\<lambda>i. requestID x + 1 + of_nat i) [0..<n + 1]),
              x\<lparr>requestID := requestID x + of_nat (n + 1)\<rparr>, c')
         \<and> sendOneRequest d pdus packetOut True x c
           = (Ok (None, Some (if now c' > now c + Timeout x then requestTimeout n else udpTimeout)),
              x\<lparr>requestID := requestID x + of_nat (n + 1)\<rparr>, c')
         \<and> map (\<lambda>(t, dl, b). dl - t) (sent c')
           = map (\<lambda>(t, dl, b). dl - t) (sent c) @ replicate (n + 1) (goDiv (Timeout x) (int n + 1))"
proof -
  have inv: "\<forall>m < length lates. 0 < 0 + m \<longrightarrow>
                now c + int m * max 0 (goDiv (Timeout x) (int n + 1))
                  + sum_list (map int (take m lates)) \<le> now c + Timeout x"
    using clock len by auto
  from sendLoop_all_lost [OF ver marshal R w rd, where k = 0 and err = None
      and fd = "now c + Timeout x" and ids = "[]" and mids = "[]"] len inv
  obtain c' where
    run: "sendLoop d pdus True (now c + Timeout x) 0 packetOut [] [] None x c
           = (Ok ((None, Some (if now c' > now c + Timeout x then requestTimeout n else udpTimeout)),
                  map (\<lambda>i. requestID x + 1 + of_nat i) [0..<n + 1]),
              x\<lparr>requestID := requestID x + of_nat (n + 1)\<rparr>, c')"
    and dls: "map (\<lambda>(t, dl, b). dl - t) (sent c')
           = map (\<lambda>(t, dl, b). dl - t) (sent c) @ replicate (n + 1) (goDiv (Timeout x) (int n + 1))"
    by auto
  have "sendOneRequest d pdus packetOut True x c
           = (Ok (None, Some (if now c' > now c + Timeout x then requestTimeout n else udpTimeout)),
              x\<lparr>requestID := requestID x + of_nat (n + 1)\<rparr>, c')"
    using run R by (simp add: sendOneRequest_def bnd_def)
  with run dls show ?thesis by blast
qed

theorem sendOneRequest_all_lost_witness:
  "\<exists>c'. sendOneRequest specDeps probe (v1Packet GetRequest) True (v1Session 3000 2)
           (freshConn [Lost 0, Lost 5, Lost 0])
         = (Ok (None, Some (if now c' > 4000 then requestTimeout 2 else udpTimeout)),
            (v1Session 3000 2)\<lparr>requestID := 9\<rparr>, c')
       \<and> map (\<lambda>(t, dl, b). dl - t) (sent c') = [1000, 1000, 1000]"
proof -
  have clock: "\<forall>m \<in> {1..2::nat}. int m * max 0 (goDiv (Timeout (v1Session 3000 2)) (int 2 + 1))
                  + sum_list (map int (take m [0, 5, 0])) \<le> Timeout (v1Session 3000 2)"
  proof
    fix m :: nat assume "m \<in> {1..2}"
    then have "m = 1 \<or> m = 2" by auto
    then show "int m * max 0 (goDiv (Timeout (v1Session 3000 2)) (int 2 + 1))
                  + sum_list (map int (take m [0, 5, 0])) \<le> Timeout (v1Session 3000 2)"
      by (auto simp: goDiv_def v1Session_def)
  qed
  have ver: "sessionVersion (v1Session 3000 2) \<noteq> Version3"
    by (simp add: v1Session_def Version1_def Version3_def)
  have R: "Retries (v1Session 3000 2) = int 2" by (simp add: v1Session_def)
  have w: "writes (freshConn [Lost 0, Lost 5, Lost 0]) = []" by (simp add: freshConn_def)
  have rd: "reads (freshConn [Lost 0, Lost 5, Lost 0]) = map Lost [0, 5, 0]"
    by (simp add: freshConn_def)
  have len: "length [0, 5, 0::nat] = 2 + 1" by simp
  from sendOneRequest_all_lost [OF ver marshal_probe R w rd len clock]
  obtain c' where
    run: "sendOneRequest specDeps probe (v1Packet GetRequest) True (v1Session 3000 2)
            (freshConn [Lost 0, Lost 5, Lost 0])
          = (Ok (None, Some (if now c' > now (freshConn [Lost 0, Lost 5, Lost 0])
                                           + Timeout (v1Session 3000 2)
                             then requestTimeout 2 else udpTimeout)),
             (v1Session 3000 2)\<lparr>requestID := requestID (v1Session 3000 2) + of_nat (2 + 1)\<rparr>, c')"
    and dls: "map (\<lambda>(t, dl, b). dl - t) (sent c')
          = map (\<lambda>(t, dl, b). dl - t) (sent (freshConn [Lost 0, Lost 5, Lost 0]))
            @ replicate (2 + 1) (goDiv (Timeout (v1Session 3000 2)) (int 2 + 1))"
    by blast
  have fd: "now (freshConn [Lost 0, Lost 5, Lost 0]) + Timeout (v1Session 3000 2) = 4000"
    by (simp add: v1Session_def freshConn_def)
  have id: "requestID (v1Session 3000 2) + of_nat (2 + 1) = 9"
    by (simp add: v1Session_def)
  have q: "map (\<lambda>(t, dl, b). dl - t) (sent (freshConn [Lost 0, Lost 5, Lost 0]))
            @ replicate (2 + 1) (goDiv (Timeout (v1Session 3000 2)) (int 2 + 1))
           = [1000, 1000, 1000]"
    by (simp add: v1Session_def freshConn_def goDiv_def numeral_3_eq_3)
  have "sendOneRequest specDeps probe (v1Packet GetRequest) True (v1Session 3000 2)
           (freshConn [Lost 0, Lost 5, Lost 0])
         = (Ok (None, Some (if now c' > 4000 then requestTimeout 2 else udpTimeout)),
            (v1Session 3000 2)\<lparr>requestID := 9\<rparr>, c')
       \<and> map (\<lambda>(t, dl, b). dl - t) (sent c') = [1000, 1000, 1000]"
    using run dls unfolding fd id q by (rule conjI)
  then show ?thesis by (rule exI)
qed

text \<open>
  Claim C2, as stated, fails. The total timeout is 1 and the retry count is 1; the first
  read returns 2 units of time after its deadline, so that the clock has passed the
  overall deadline when the retry would begin (line 168). The loop has made one attempt,
  not two, and returns ``Request timeout (after 0 retries)''.
\<close>

theorem sendOneRequest_gives_up_at_overall_deadline:
  "(case sendOneRequest specDeps probe (v1Packet GetRequest) True (v1Session 1 1)
           (freshConn [Lost 2]) of
      (r, x', c') \<Rightarrow>
        r = Ok (None, Some (requestTimeout 0)) \<and> length (sent c') = 1 \<and> requestID x' = 7)"
  by code_simp

subsection \<open>Responses without bindings\<close>

text \<open>
  Claim C9, as the code has it. When \<^verbatim>\<open>sendOneRequest\<close> waits for the response and
  returns a packet without error, the packet holds at least one binding. In the receive
  loop a response that decodes to a packet without bindings is dropped like one that
  does not decode: the loop reads on, under the same deadline. \<^verbatim>\<open>unmarshalVBL\<close>
  itself accepts the empty list of bindings.
\<close>

theorem sendOneRequest_success_has_binding:
  "(sendOneRequest d pdus packetOut True x c = (Ok (Some result, None), x', c')
      \<longrightarrow> Variables result \<noteq> [])
   \<and> (receive c = (Inr resp, cn)
        \<and> unmarshal h resp (Some (freshResult packetOut)) = Ok unbound
        \<and> Variables unbound = []
      \<longrightarrow> receiveLoop h packetOut allReqIDs c = receiveLoop h packetOut allReqIDs cn
          \<and> deadline cn = deadline c)
   \<and> (receive c = (Inr resp, cn) \<and> unmarshal h resp (Some (freshResult packetOut)) = Err e
      \<longrightarrow> receiveLoop h packetOut allReqIDs c = receiveLoop h packetOut allReqIDs cn
          \<and> deadline cn = deadline c)
   \<and> (parseLength h [0x30, 0x00] = (2, cursor)
      \<longrightarrow> unmarshalVBL h [0x30, 0x00] response n = Ok response)"
proof (intro conjI impI)
  assume ok: "sendOneRequest d pdus packetOut True x c = (Ok (Some result, None), x', c')"
  obtain r x1 c1 where run: "sendLoop d pdus True (now c + Timeout x) 0 packetOut [] [] None x c
      = (r, x1, c1)"
    by (cases "sendLoop d pdus True (now c + Timeout x) 0 packetOut [] [] None x c")
  with ok obtain ids where "r = Ok ((Some result, None), ids)"
    by (cases r) (auto simp: sendOneRequest_def bnd_def split: if_splits)
  with run show "Variables result \<noteq> []" by (auto dest: sendLoop_Ok)
next
  assume "receive c = (Inr resp, cn)
        \<and> unmarshal h resp (Some (freshResult packetOut)) = Ok unbound
        \<and> Variables unbound = []"
  then show "receiveLoop h packetOut allReqIDs c = receiveLoop h packetOut allReqIDs cn"
    by (subst receiveLoop.simps) simp
next
  assume "receive c = (Inr resp, cn)
        \<and> unmarshal h resp (Some (freshResult packetOut)) = Ok unbound
        \<and> Variables unbound = []"
  then show "deadline cn = deadline c"
    by (simp add: receive_keeps_deadline)
next
  assume "receive c = (Inr resp, cn) \<and> unmarshal h resp (Some (freshResult packetOut)) = Err e"
  then show "receiveLoop h packetOut allReqIDs c = receiveLoop h packetOut allReqIDs cn"
    by (subst receiveLoop.simps) simp
next
  assume "receive c = (Inr resp, cn) \<and> unmarshal h resp (Some (freshResult packetOut)) = Err e"
  then show "deadline cn = deadline c"
    by (simp add: receive_keeps_deadline)
next
  assume "parseLength h [0x30, 0x00] = (2, cursor)"
  then show "unmarshalVBL h [0x30, 0x00] response n = Ok response"
    by (rule unmarshalVBL_empty)
qed

theorem sendOneRequest_success_has_binding_witness:
  "Variables ((v1Packet GetResponse)\<lparr>RequestID := 7, Variables := [temperature]\<rparr>) \<noteq> []
   \<and> receiveLoop specHelpers (v1Packet GetRequest) [7] (freshConn [Datagram emptyResponse])
       = receiveLoop specHelpers (v1Packet GetRequest) [7] (freshConn [])
   \<and> receiveLoop specHelpers (v1Packet GetRequest) [7] (freshConn [Datagram [48, 5, 2]])
       = receiveLoop specHelpers (v1Packet GetRequest) [7] (freshConn [])
   \<and> unmarshalVBL specHelpers [0x30, 0x00] emptyPacket 0 = Ok emptyPacket"
proof -
  obtain r x' c' where run:
    "sendOneRequest specDeps probe (v1Packet GetRequest) True (v1Session 2000 0)
       (freshConn [Datagram integerResponse]) = (r, x', c')"
    by (cases "sendOneRequest specDeps probe (v1Packet GetRequest) True (v1Session 2000 0)
       (freshConn [Datagram integerResponse])")
  with sendOneRequest_integerResponse
  have ok: "sendOneRequest specDeps probe (v1Packet GetRequest) True (v1Session 2000 0)
       (freshConn [Datagram integerResponse])
     = (Ok (Some ((v1Packet GetResponse)\<lparr>RequestID := 7, Variables := [temperature]\<rparr>), None),
        x', c')"
    by simp
  note inst = sendOneRequest_success_has_binding
    [where d = specDeps and pdus = probe and packetOut = "v1Packet GetRequest"
       and x = "v1Session 2000 0" and x' = x' and c' = c' and h = specHelpers
       and allReqIDs = "[7]" and cn = "freshConn []" and cursor = 2
       and response = emptyPacket and n = 0
       and result = "(v1Packet GetResponse)\<lparr>RequestID := 7, Variables := [temperature]\<rparr>"]
  from inst [where c = "freshConn [Datagram integerResponse]"] ok
  have a: "Variables ((v1Packet GetResponse)\<lparr>RequestID := 7, Variables := [temperature]\<rparr>) \<noteq> []"
    by blast
  from inst [where c = "freshConn [Datagram emptyResponse]" and resp = emptyResponse
      and unbound = "(v1Packet GetResponse)\<lparr>RequestID := 7\<rparr>"]
    receive_emptyResponse unmarshal_emptyResponse
  have b: "receiveLoop specHelpers (v1Packet GetRequest) [7] (freshConn [Datagram emptyResponse])
       = receiveLoop specHelpers (v1Packet GetRequest) [7] (freshConn [])"
    by (simp add: v1Packet_def emptyPacket_def)
  from inst [where c = "freshConn [Datagram [48, 5, 2]]" and resp = "[48, 5, 2]"]
    receive_truncated unmarshal_truncated
  have c: "receiveLoop specHelpers (v1Packet GetRequest) [7] (freshConn [Datagram [48, 5, 2]])
       = receiveLoop specHelpers (v1Packet GetRequest) [7] (freshConn [])"
    by blast
  from inst [where c = "freshConn []"] specParseLength_empty_list
  have d: "unmarshalVBL specHelpers [0x30, 0x00] emptyPacket 0 = Ok emptyPacket"
    by blast
  from a b c d show ?thesis by blast
qed

text \<open>
  Claim C9, as stated, fails. When the caller does not wait for a response, as for a
  trap, \<^verbatim>\<open>sendOneRequest\<close> returns the empty packet without error (line 211).
\<close>

theorem sendOneRequest_returns_empty_packet_without_waiting:
  "fst (sendOneRequest specDeps probe (v1Packet GetRequest) False (v1Session 2000 0)
          (freshConn []))
     = Ok (Some emptyPacket, None)
   \<and> Variables emptyPacket = []"
  by code_simp

subsection \<open>Panics while decoding\<close>

text \<open>
  Claim C8, as the code has it. \<^verbatim>\<open>unmarshal\<close> reads the first byte of the buffer
  without a check (line 805) and panics on the empty buffer. The panic does not end the
  process: the deferred function of \<^verbatim>\<open>send\<close> recovers it (lines 273-277), so that
  \<^verbatim>\<open>send\<close> never panics; when the first datagram read on a session of version 1 or
  2c is empty, \<^verbatim>\<open>send\<close> returns the error ``recover: runtime error: index out of
  range''.
\<close>

theorem send_recovers_decode_panic:
  "unmarshal h [] (Some response) = Panic ''runtime error: index out of range''
   \<and> (\<forall>p. fst (send d pdus packetOut wait x conn') \<noteq> Panic p)
   \<and> (Version packetOut \<noteq> Version3 \<and> sessionVersion x \<noteq> Version3
        \<and> marshalMsg (encodersOf d) packetOut pdus (PDUType packetOut) 0 (requestID x + 1) = Ok buf
        \<and> writes c = [] \<and> reads c = Datagram [] # rest
      \<longrightarrow> fst (send d pdus packetOut True x (Some c))
            = Ok (None, Some (Errorf ''recover: %v'' [ArgStr ''runtime error: index out of range''])))"
  using unmarshal_empty send_no_panic send_empty_datagram by blast

theorem send_recovers_decode_panic_witness:
  "fst (send specDeps probe (v1Packet GetRequest) True (v1Session 2000 0)
          (Some (freshConn [Datagram [], Datagram integerResponse])))
     = Ok (None, Some (Errorf ''recover: %v'' [ArgStr ''runtime error: index out of range'']))"
proof -
  obtain buf where buf: "marshalMsg (encodersOf specDeps) (v1Packet GetRequest) probe
            (PDUType (v1Packet GetRequest)) 0 (requestID (v1Session 2000 0) + 1) = Ok buf"
    using marshal_probe by blast
  have "Version (v1Packet GetRequest) \<noteq> Version3 \<and> sessionVersion (v1Session 2000 0) \<noteq> Version3
        \<and> marshalMsg (encodersOf specDeps) (v1Packet GetRequest) probe
            (PDUType (v1Packet GetRequest)) 0 (requestID (v1Session 2000 0) + 1) = Ok buf
        \<and> writes (freshConn [Datagram [], Datagram integerResponse]) = []
        \<and> reads (freshConn [Datagram [], Datagram integerResponse])
            = Datagram [] # [Datagram integerResponse]"
    using buf
    by (simp add: v1Packet_def v1Session_def freshConn_def emptyPacket_def Version1_def Version3_def)
  with send_recovers_decode_panic
    [where d = specDeps and pdus = probe and packetOut = "v1Packet GetRequest"
       and x = "v1Session 2000 0" and c = "freshConn [Datagram [], Datagram integerResponse]"
       and buf = buf and rest = "[Datagram integerResponse]"]
  show ?thesis by blast
qed

text \<open>
  Claim C8, as stated, fails: decoding the empty buffer panics.
\<close>

theorem unmarshal_panics_on_empty_buffer:
  "unmarshal specHelpers [] (Some emptyPacket) = Panic ''runtime error: index out of range''"
  by (rule unmarshal_empty)

section \<open>Properties of the codec\<close>

lemma unmarshal_length:
  assumes "packet \<noteq> []" and "fst (parseLength h packet) \<noteq> int (length packet)"
  shows "unmarshal h packet (Some response) =
           (if hd packet \<noteq> Sequence then Err (Errorf ''Invalid packet header'' [])
            else Err (Errorf ''Error verifying packet sanity: Got %d Expected: %d''
                        [ArgInt (int (length packet)), ArgInt (fst (parseLength h packet))]))"
  using assms
  by (cases packet) (auto simp: unmarshal_def Let_def indexAt_def bnd_def split: prod.splits)

lemma unmarshalResponse_length:
  assumes "fst (parseLength h pdu) \<noteq> int (length pdu)"
  shows "unmarshalResponse h pdu response n requestType =
           Err (Errorf ''Error verifying Response sanity: Got %d Expected: %d''
                  [ArgInt (int (length pdu)), ArgInt (fst (parseLength h pdu))])"
  using assms
  by (auto simp: unmarshalResponse_def Let_def split: prod.splits)

lemma parseLength_truncated: "parseLength specHelpers [48, 5, 2] = (7, 2)"
  by code_simp

lemma parseLength_shortPdu: "parseLength specHelpers (drop 13 shortPduResponse) = (32, 2)"
  by code_simp

lemma length_shortPdu: "length shortPduResponse - 13 = 33"
  by (simp add: shortPduResponse_def)

text \<open>
  Claim C6. Whenever the length that \<^verbatim>\<open>parseLength\<close> reads from the outer envelope
  differs from the length of the buffer, \<^verbatim>\<open>unmarshal\<close> returns no packet; on a
  buffer that is not empty it returns the error ``Invalid packet header'' when the first
  byte is not that of a sequence, and the error ``Error verifying packet sanity''
  otherwise. \<^verbatim>\<open>unmarshalResponse\<close> checks the envelope of the response PDU in the
  same way and returns the error ``Error verifying Response sanity''.
\<close>

theorem unmarshal_rejects_length_mismatch:
  "(fst (parseLength h packet) \<noteq> int (length packet) \<longrightarrow>
      (\<forall>p. unmarshal h packet (Some response) \<noteq> Ok p)
      \<and> (packet \<noteq> [] \<longrightarrow>
           unmarshal h packet (Some response) =
             (if hd packet \<noteq> Sequence then Err (Errorf ''Invalid packet header'' [])
              else Err (Errorf ''Error verifying packet sanity: Got %d Expected: %d''
                          [ArgInt (int (length packet)), ArgInt (fst (parseLength h packet))]))))
   \<and> (fst (parseLength h pdu) \<noteq> int (length pdu) \<longrightarrow>
        unmarshalResponse h pdu response n requestType =
          Err (Errorf ''Error verifying Response sanity: Got %d Expected: %d''
                 [ArgInt (int (length pdu)), ArgInt (fst (parseLength h pdu))]))"
proof (intro conjI impI allI)
  fix p assume m: "fst (parseLength h packet) \<noteq> int (length packet)"
  show "unmarshal h packet (Some response) \<noteq> Ok p"
  proof (cases "packet = []")
    case True
    then show ?thesis by (simp add: unmarshal_empty)
  next
    case False
    from unmarshal_length [OF False m] show ?thesis by (simp split: if_splits)
  qed
next
  assume "fst (parseLength h packet) \<noteq> int (length packet)" and "packet \<noteq> []"
  then show "unmarshal h packet (Some response) =
             (if hd packet \<noteq> Sequence then Err (Errorf ''Invalid packet header'' [])
              else Err (Errorf ''Error verifying packet sanity: Got %d Expected: %d''
                          [ArgInt (int (length packet)), ArgInt (fst (parseLength h packet))]))"
    by (simp add: unmarshal_length)
next
  assume "fst (parseLength h pdu) \<noteq> int (length pdu)"
  then show "unmarshalResponse h pdu response n requestType =
          Err (Errorf ''Error verifying Response sanity: Got %d Expected: %d''
                 [ArgInt (int (length pdu)), ArgInt (fst (parseLength h pdu))])"
    by (rule unmarshalResponse_length)
qed

theorem unmarshal_rejects_length_mismatch_witness:
  "unmarshal specHelpers [48, 5, 2] (Some emptyPacket)
     = Err (Errorf ''Error verifying packet sanity: Got %d Expected: %d'' [ArgInt 3, ArgInt 7])
   \<and> unmarshalResponse specHelpers (drop 13 shortPduResponse) emptyPacket 46 GetResponse
     = Err (Errorf ''Error verifying Response sanity: Got %d Expected: %d''
              [ArgInt 33, ArgInt 32])"
  using unmarshal_rejects_length_mismatch
    [where h = specHelpers and packet = "[48, 5, 2]" and response = emptyPacket
       and pdu = "drop 13 shortPduResponse" and n = 46 and requestType = GetResponse]
  by (simp add: parseLength_truncated parseLength_shortPdu length_shortPdu Sequence_def)

text \<open>
  Claim C5 fails on a long octet string. \<^verbatim>\<open>marshalVarbind\<close> writes every length
  as one byte (\<^verbatim>\<open>byte(len(octetStringBytes))\<close>, line 730), where \<^verbatim>\<open>marshalVBL\<close>,
  \<^verbatim>\<open>marshalPDU\<close> and \<^verbatim>\<open>marshalMsg\<close> call \<^verbatim>\<open>marshalLength\<close>. For a value of
  130 bytes the length byte is 130, which reads as the header of a length held in two
  bytes, and decoding the encoded list of bindings fails. A value of 10 bytes comes back
  as it was.
\<close>

theorem long_octet_string_does_not_round_trip:
  "marshalVarbind specEncoders (octets 130)
     = Ok ([48, 142, 6, 8, 43, 6, 1, 2, 1, 1, 1, 0, 4, 130] @ replicate 130 97)
   \<and> bnd (marshalVBL specEncoders [octets 130]) (\<lambda>bs. unmarshalVBL specHelpers bs emptyPacket 0)
     = Err (Errorf ''Error parsing OID Value: %s''
              [ArgErr (Errorf ''Unable to parse %s: unknown field type'' [ArgStr ''OID''])])
   \<and> bnd (marshalVBL specEncoders [octets 10]) (\<lambda>bs. unmarshalVBL specHelpers bs emptyPacket 0)
     = Ok (emptyPacket\<lparr>Variables := [octets 10]\<rparr>)"
  by code_simp

end
